theory Spec2Isabelle
  imports Main
begin

section \<open>The Couchbase test container: data model\<close>

text \<open>
  The module \<^verbatim>\<open>testcontainers/couchbase/__init__.py\<close> defines one class,
  \<^verbatim>\<open>CouchbaseContainer\<close>. Its attributes are a record, its methods are functions that
  take the state before the call and return the result together with the state after it.
  An exception is the left summand of the result.
\<close>

subsection \<open>Python values\<close>

text \<open>Python's \<^verbatim>\<open>str(int)\<close>, used by the f-strings that build the URLs.\<close>

definition digit_char :: "nat \<Rightarrow> char" where
  "digit_char d = ''0123456789'' ! d"

fun str_nat :: "nat \<Rightarrow> string" where
  "str_nat n = (if n < 10 then [digit_char n] else str_nat (n div 10) @ [digit_char (n mod 10)])"

declare str_nat.simps [simp del]

definition str_int :: "int \<Rightarrow> string" where
  "str_int i = (if i < 0 then CHR ''-'' # str_nat (nat (- i)) else str_nat (nat i))"

text \<open>\<^verbatim>\<open>str(False)\<close> and \<^verbatim>\<open>str.lower()\<close> on ASCII letters.\<close>

definition str_bool :: "bool \<Rightarrow> string" where
  "str_bool b = (if b then ''True'' else ''False'')"

definition lower_char :: "char \<Rightarrow> char" where
  "lower_char c =
     (if 65 \<le> (of_char c :: nat) \<and> (of_char c :: nat) \<le> 90
      then char_of ((of_char c :: nat) + 32) else c)"

definition lower :: "string \<Rightarrow> string" where
  "lower s = map lower_char s"

text \<open>
  \<^verbatim>\<open>a or b\<close> on an optional string: the left operand is taken when it is truthy, that
  is neither \<^verbatim>\<open>None\<close> nor the empty string.
\<close>

definition py_or :: "string option \<Rightarrow> string \<Rightarrow> string" where
  "py_or a b = (case a of None \<Rightarrow> b | Some v \<Rightarrow> if v = [] then b else v)"

text \<open>\<^verbatim>\<open>os.environ.get(key, default)\<close>.\<close>

definition environ_get :: "(string \<rightharpoonup> string) \<Rightarrow> string \<Rightarrow> string \<Rightarrow> string" where
  "environ_get environ k d = (case environ k of None \<Rightarrow> d | Some v \<Rightarrow> v)"

subsection \<open>Errors\<close>

datatype error =
    RuntimeError string
  | ConnectionError
  | ValueError string
  | JSONDecodeError
  | DockerError string
  | ClusterConnectError
  | ClusterTimeout

subsection \<open>The container object\<close>

text \<open>
  Modelled from the spec: the base class \<^verbatim>\<open>DbContainer\<close> of \<^verbatim>\<open>testcontainers.core\<close>
  is not part of the sources at hand. The container runtime contract of the spec,
  \<^verbatim>\<open>start(image, exposed_ports, bound_ports, env_vars)\<close>, gives the attributes the base
  object carries. The two port attributes keep the calls in the order they were made.
\<close>

record docker_container =
  image_name :: string
  env :: "string \<rightharpoonup> string"
  exposed_ports :: "int list"
  bind_ports :: "(int \<times> int) list"

text \<open>The attributes that \<^verbatim>\<open>CouchbaseContainer.__init__\<close> adds.\<close>

record couchbase_container = docker_container +
  username :: string
  password :: string
  bucket :: string
  scope :: string
  collection :: string

text \<open>
  Modelled from the spec: \<^verbatim>\<open>with_exposed_ports\<close> is a method of the base class, which is
  not part of the sources at hand. It adds a port to the exposed ports of the runtime
  contract.
\<close>

definition with_exposed_ports :: "int \<Rightarrow> couchbase_container \<Rightarrow> couchbase_container" where
  "with_exposed_ports p c = c\<lparr>exposed_ports := exposed_ports c @ [p]\<rparr>"

text \<open>
  Modelled from the spec: \<^verbatim>\<open>with_bind_ports\<close> is a method of the base class, which is not
  part of the sources at hand. It adds a pair of container port and host port to the bound
  ports of the runtime contract.
\<close>

definition with_bind_ports :: "int \<Rightarrow> int \<Rightarrow> couchbase_container \<Rightarrow> couchbase_container" where
  "with_bind_ports p h c = c\<lparr>bind_ports := bind_ports c @ [(p, h)]\<rparr>"

text \<open>
  Modelled from the spec: \<^verbatim>\<open>with_env\<close> is a method of the base class, which is not part
  of the sources at hand. It sets a variable among the environment variables of the
  runtime contract.
\<close>

definition with_env :: "string \<Rightarrow> string \<Rightarrow> couchbase_container \<Rightarrow> couchbase_container" where
  "with_env k v c = c\<lparr>env := (env c)(k \<mapsto> v)\<rparr>"

subsection \<open>The constructor\<close>

record init_args =
  arg_ports :: "int list option"
  arg_username :: "string option"
  arg_password :: "string option"
  arg_bucket :: "string option"
  arg_scope :: "string option"
  arg_collection :: "string option"

definition default_ports :: "int list" where
  "default_ports =
     [8091, 8092, 8093, 8094, 8095, 8096, 8097, 9123, 11207, 11210, 11280,
      18091, 18092, 18093, 18094, 18095, 18096, 18097]"

text \<open>The loop \<^verbatim>\<open>for port in ports\<close> of the constructor.\<close>

fun expose_and_bind :: "int list \<Rightarrow> couchbase_container \<Rightarrow> couchbase_container" where
  "expose_and_bind [] c = c"
| "expose_and_bind (port # ports) c =
     expose_and_bind ports (with_bind_ports port port (with_exposed_ports port c))"

text \<open>
  \<^verbatim>\<open>__init__\<close>. Its first two statements, the check for the deprecated keyword
  \<^verbatim>\<open>user\<close> and the constructor of the base class, run code of \<^verbatim>\<open>testcontainers.core\<close>;
  their outcome is the parameter \<open>base\<close>: the base object they leave, or the exception
  they raise. \<open>environ\<close> is \<^verbatim>\<open>os.environ\<close>.
\<close>

definition init ::
  "error + docker_container \<Rightarrow> (string \<rightharpoonup> string) \<Rightarrow> init_args \<Rightarrow> error + couchbase_container"
where
  "init base environ a =
     (case base of
        Inl e \<Rightarrow> Inl e
      | Inr b \<Rightarrow>
          let self = \<lparr>image_name = image_name b, env = env b,
                      exposed_ports = exposed_ports b, bind_ports = bind_ports b,
                      username = py_or (arg_username a)
                        (environ_get environ ''COUCHBASE_USERNAME'' ''Administrator''),
                      password = py_or (arg_password a)
                        (environ_get environ ''COUCHBASE_PASSWORD'' ''password''),
                      bucket = py_or (arg_bucket a)
                        (environ_get environ ''COUCHBASE_BUCKET'' ''default''),
                      scope = py_or (arg_scope a)
                        (environ_get environ ''COUCHBASE_SCOPE'' ''default''),
                      collection = py_or (arg_collection a)
                        (environ_get environ ''COUCHBASE_COLLECTION'' ''default'')\<rparr>;
              ports = (case arg_ports a of
                         None \<Rightarrow> default_ports
                       | Some ps \<Rightarrow> if length ps = 0 then default_ports else ps)
          in Inr (expose_and_bind ports self))"

section \<open>The management HTTP API and the outside world\<close>

datatype http_method = GET | POST

datatype form_value = StrV string | IntV int

record request =
  meth :: http_method
  url :: string
  data :: "(string \<times> form_value) list"
  auth :: "(string \<times> string) option"

record response =
  status_code :: int
  response_text :: string

text \<open>
  What \<^verbatim>\<open>requests.get\<close> and \<^verbatim>\<open>requests.post\<close> give back: a response, or the
  exception \<^verbatim>\<open>requests.exceptions.ConnectionError\<close>, the one exception the module
  handles.
\<close>

datatype outcome = Response response | ConnectionRefused

text \<open>The handle and options that \<^verbatim>\<open>client()\<close> builds with the Couchbase SDK.\<close>

datatype tls_verify_mode = TLS_NONE | TLS_PEER

record cluster_options =
  authenticator :: "string \<times> string"
  kv_timeout :: nat
  enable_tcp_keep_alive :: bool
  tls_verify :: tls_verify_mode

record cluster =
  connstr :: string
  options :: cluster_options

text \<open>
  Every call that leaves the process is recorded, in order, with what came back: the
  start of the container by the runtime (the exception it raised, if any),
  \<^verbatim>\<open>wait_for_logs\<close>, \<^verbatim>\<open>sleep\<close>, an HTTP exchange, the construction of a
  \<^verbatim>\<open>Cluster\<close> (the exception it raised, if any) and \<^verbatim>\<open>wait_until_ready\<close> (timeout in
  seconds, and whether the cluster reported ready in time).
\<close>

datatype event =
    DockerStart "error option"
  | WaitForLogs string
  | Sleep nat
  | Http request outcome
  | NewCluster cluster "error option"
  | WaitUntilReady cluster nat bool

text \<open>
  The environment of a run, with \<open>'w\<close> the state of the world outside the process:
  the address and port mapping the container runtime reports
  (\<^verbatim>\<open>get_container_host_ip\<close>, \<^verbatim>\<open>get_exposed_port\<close>); the start of the container by the
  runtime, which returns or raises; the server behind the management port as a transition
  function; the constructor \<^verbatim>\<open>Cluster(...)\<close> of the SDK, which returns or raises; and
  the readiness of the cluster as \<^verbatim>\<open>wait_until_ready\<close> sees it.
\<close>

record 'w environment =
  get_container_host_ip :: string
  get_exposed_port :: "int \<Rightarrow> int"
  run_container :: "'w \<Rightarrow> couchbase_container \<Rightarrow> error option \<times> 'w"
  serve :: "'w \<Rightarrow> request \<Rightarrow> outcome \<times> 'w"
  cluster_connect :: "'w \<Rightarrow> cluster \<Rightarrow> error option"
  cluster_ready :: "'w \<Rightarrow> cluster \<Rightarrow> nat \<Rightarrow> bool"

text \<open>The state a method runs in: the object, the server, and the calls made so far.\<close>

record 'w system =
  self :: couchbase_container
  server :: 'w
  trace :: "event list"

definition log_event :: "event \<Rightarrow> 'w system \<Rightarrow> 'w system" where
  "log_event e s = s\<lparr>trace := trace s @ [e]\<rparr>"

text \<open>One HTTP request: the server answers and moves on, the exchange is recorded.\<close>

definition http :: "'w environment \<Rightarrow> request \<Rightarrow> 'w system \<Rightarrow> outcome \<times> 'w system" where
  "http E rq s =
     (let (out, w') = serve E (server s) rq
      in (out, s\<lparr>server := w', trace := trace s @ [Http rq out]\<rparr>))"

text \<open>The test \<^verbatim>\<open>200 <= response.status_code < 300\<close>.\<close>

definition is_2xx :: "response \<Rightarrow> bool" where
  "is_2xx r \<longleftrightarrow> 200 \<le> status_code r \<and> status_code r < 300"

text \<open>The prefix \<^verbatim>\<open>http://{host}:{port}\<close> that every URL of the module starts with.\<close>

definition management_url :: "'w environment \<Rightarrow> string" where
  "management_url E =
     ''http://'' @ get_container_host_ip E @ '':'' @ str_int (get_exposed_port E 8091)"

text \<open>
  The tail shared by the four POST methods and by nothing else in the source: return on a
  2xx status, raise \<^verbatim>\<open>RuntimeError(response.text)\<close> otherwise. A connection error is
  not caught there and leaves the method as it is.
\<close>

definition raise_unless_2xx :: "outcome \<Rightarrow> error + unit" where
  "raise_unless_2xx out =
     (case out of
        ConnectionRefused \<Rightarrow> Inl ConnectionError
      | Response r \<Rightarrow> if is_2xx r then Inr () else Inl (RuntimeError (response_text r)))"

section \<open>The methods\<close>

subsection \<open>Bootstrap requests\<close>

definition set_admin_credentials_request :: "'w environment \<Rightarrow> couchbase_container \<Rightarrow> request" where
  "set_admin_credentials_request E c =
     \<lparr>meth = POST,
      url = management_url E @ ''/settings/web'',
      data = [(''username'', StrV (username c)), (''password'', StrV (password c)),
              (''port'', StrV ''SAME'')],
      auth = None\<rparr>"

definition set_admin_credentials :: "'w environment \<Rightarrow> 'w system \<Rightarrow> (error + unit) \<times> 'w system" where
  "set_admin_credentials E s =
     (let (out, s') = http E (set_admin_credentials_request E (self s)) s
      in (raise_unless_2xx out, s'))"

definition create_bucket_request :: "'w environment \<Rightarrow> couchbase_container \<Rightarrow> request" where
  "create_bucket_request E c =
     \<lparr>meth = POST,
      url = management_url E @ ''/pools/default/buckets'',
      data = [(''name'', StrV (bucket c)), (''bucketType'', StrV ''couchbase''),
              (''ramQuotaMB'', IntV 256)],
      auth = Some (username c, password c)\<rparr>"

definition create_bucket :: "'w environment \<Rightarrow> 'w system \<Rightarrow> (error + unit) \<times> 'w system" where
  "create_bucket E s =
     (let (out, s') = http E (create_bucket_request E (self s)) s
      in (raise_unless_2xx out, s'))"

definition create_scope_request :: "'w environment \<Rightarrow> couchbase_container \<Rightarrow> request" where
  "create_scope_request E c =
     \<lparr>meth = POST,
      url = management_url E @ ''/pools/default/buckets/'' @ bucket c @ ''/scopes'',
      data = [(''name'', StrV (scope c))],
      auth = Some (username c, password c)\<rparr>"

definition create_scope :: "'w environment \<Rightarrow> 'w system \<Rightarrow> (error + unit) \<times> 'w system" where
  "create_scope E s =
     (let (out, s') = http E (create_scope_request E (self s)) s
      in (raise_unless_2xx out, s'))"

definition create_collection_request :: "'w environment \<Rightarrow> couchbase_container \<Rightarrow> request" where
  "create_collection_request E c =
     \<lparr>meth = POST,
      url = management_url E @ ''/pools/default/buckets/'' @ bucket c @ ''/scopes/'' @ scope c
              @ ''/collections'',
      data = [(''name'', StrV (collection c)), (''maxTTL'', IntV 3600),
              (''history'', StrV (lower (str_bool False)))],
      auth = Some (username c, password c)\<rparr>"

definition create_collection :: "'w environment \<Rightarrow> 'w system \<Rightarrow> (error + unit) \<times> 'w system" where
  "create_collection E s =
     (let (out, s') = http E (create_collection_request E (self s)) s
      in (raise_unless_2xx out, s'))"

subsection \<open>Readiness\<close>

definition settings_request :: "'w environment \<Rightarrow> request" where
  "settings_request E =
     \<lparr>meth = GET, url = management_url E @ ''/settings/web'', data = [], auth = None\<rparr>"

text \<open>
  One round of the loop \<^verbatim>\<open>while True\<close> of \<^verbatim>\<open>_connect\<close> up to the test of the
  status: \<^verbatim>\<open>sleep(1)\<close>, then the GET of the settings endpoint.
\<close>

definition attempt :: "'w environment \<Rightarrow> 'w system \<Rightarrow> outcome \<times> 'w system" where
  "attempt E s = http E (settings_request E) (log_event (Sleep 1) s)"

text \<open>
  The loop itself: leave on a 2xx status, go round again on any other status and on a
  connection error. The loop has no other exit and no bound, so it is a partial function:
  \<open>None\<close> is the run that never leaves it.
\<close>

partial_function (option) poll :: "'w environment \<Rightarrow> 'w system \<Rightarrow> 'w system option" where
  "poll E s =
     (case attempt E s of
        (Response r, s') \<Rightarrow> if is_2xx r then Some s' else poll E s'
      | (ConnectionRefused, s') \<Rightarrow> poll E s')"

text \<open>
  \<^verbatim>\<open>_connect\<close>. The wait for the log line is done by \<^verbatim>\<open>wait_for_logs\<close> of
  \<^verbatim>\<open>testcontainers.core\<close>; the model records the call and goes on from its return. The
  decorator \<^verbatim>\<open>wait_container_is_ready\<close> calls the body; the body raises nothing of its
  own.
\<close>

definition connect :: "'w environment \<Rightarrow> 'w system \<Rightarrow> ((error + unit) \<times> 'w system) option" where
  "connect E s =
     map_option (\<lambda>s'. (Inr (), s')) (poll E (log_event (WaitForLogs ''and logs available in'') s))"

subsection \<open>Start\<close>

definition configure :: "'w system \<Rightarrow> 'w system" where
  "configure s =
     s\<lparr>self := with_env ''COUCHBASE_BUCKET'' (bucket (self s))
                (with_env ''COUCHBASE_PASSWORD'' (password (self s))
                  (with_env ''COUCHBASE_USERNAME'' (username (self s)) (self s)))\<rparr>"

text \<open>
  \<^verbatim>\<open>DockerContainer.start\<close>, the start of the container by the runtime: it returns, or
  it raises and the exception leaves every caller.
\<close>

definition docker_start :: "'w environment \<Rightarrow> 'w system \<Rightarrow> (error + unit) \<times> 'w system" where
  "docker_start E s =
     (let (failure, w') = run_container E (server s) (self s)
      in ((case failure of None \<Rightarrow> Inr () | Some e \<Rightarrow> Inl e),
          s\<lparr>server := w', trace := trace s @ [DockerStart failure]\<rparr>))"

text \<open>
  Modelled from the spec: \<^verbatim>\<open>DbContainer.start\<close>, which \<^verbatim>\<open>super().start()\<close> calls, is a
  method of \<^verbatim>\<open>testcontainers.core\<close> and not part of the sources at hand. The lifecycle of
  the spec passes through Starting and AwaitingReadiness before any bootstrap call: the
  base class calls \<^verbatim>\<open>_configure\<close>, starts the container through the runtime and calls
  \<^verbatim>\<open>_connect\<close>, both on the object itself, so the methods it runs are the ones of
  \<^verbatim>\<open>CouchbaseContainer\<close>.
\<close>

definition db_container_start ::
  "'w environment \<Rightarrow> 'w system \<Rightarrow> ((error + unit) \<times> 'w system) option"
where
  "db_container_start E s =
     (case docker_start E (configure s) of
        (Inl e, s1) \<Rightarrow> Some (Inl e, s1)
      | (Inr u, s1) \<Rightarrow> connect E s1)"

text \<open>
  \<^verbatim>\<open>start\<close>: each statement runs only when the one before it returned; an exception
  ends the method with the state reached so far. \<^verbatim>\<open>_configure\<close> and \<^verbatim>\<open>_connect\<close> run
  once inside \<^verbatim>\<open>super().start()\<close> and once more in the method itself.
\<close>

definition start :: "'w environment \<Rightarrow> 'w system \<Rightarrow> ((error + unit) \<times> 'w system) option" where
  "start E s =
     (case db_container_start E (configure s) of
        None \<Rightarrow> None
      | Some (Inl e, s0) \<Rightarrow> Some (Inl e, s0)
      | Some (Inr u, s0) \<Rightarrow>
     (case connect E s0 of
        None \<Rightarrow> None
      | Some (Inl e, s1) \<Rightarrow> Some (Inl e, s1)
      | Some (Inr u, s1) \<Rightarrow>
          (case set_admin_credentials E s1 of
             (Inl e, s2) \<Rightarrow> Some (Inl e, s2)
           | (Inr u, s2) \<Rightarrow>
               (case create_bucket E s2 of
                  (Inl e, s3) \<Rightarrow> Some (Inl e, s3)
                | (Inr u, s3) \<Rightarrow>
                    (case create_scope E s3 of
                       (Inl e, s4) \<Rightarrow> Some (Inl e, s4)
                     | (Inr u, s4) \<Rightarrow>
                         (case create_collection E s4 of
                            (Inl e, s5) \<Rightarrow> Some (Inl e, s5)
                          | (Inr u, s5) \<Rightarrow> Some (Inr (), s5)))))))"

subsection \<open>Client and inspection\<close>

definition get_connection_url :: "'w environment \<Rightarrow> string" where
  "get_connection_url E = ''couchbases://'' @ get_container_host_ip E"

text \<open>
  \<^verbatim>\<open>client\<close>. The constructor \<^verbatim>\<open>Cluster(...)\<close> of the SDK connects; when it raises,
  the exception leaves \<^verbatim>\<open>client\<close> and \<^verbatim>\<open>wait_until_ready\<close> is not called.
  \<^verbatim>\<open>wait_until_ready\<close> raises its timeout exception when the cluster does not report
  ready within the time given.
\<close>

definition client :: "'w environment \<Rightarrow> 'w system \<Rightarrow> (error + cluster) \<times> 'w system" where
  "client E s =
     (let auth = (username (self s), password (self s));
          options = \<lparr>authenticator = auth, kv_timeout = 10, enable_tcp_keep_alive = True,
                     tls_verify = TLS_NONE\<rparr>;
          cluster = \<lparr>connstr = get_connection_url E, options = options\<rparr>;
          failure = cluster_connect E (server s) cluster;
          s1 = log_event (NewCluster cluster failure) s
      in case failure of
           Some e \<Rightarrow> (Inl e, s1)
         | None \<Rightarrow>
             let ready = cluster_ready E (server s1) cluster 15;
                 s2 = log_event (WaitUntilReady cluster 15 ready) s1
             in if ready then (Inr cluster, s2) else (Inl ClusterTimeout, s2))"

definition list_buckets_request :: "'w environment \<Rightarrow> couchbase_container \<Rightarrow> request" where
  "list_buckets_request E c =
     \<lparr>meth = GET,
      url = management_url E @ ''/pools/default/buckets'',
      data = [],
      auth = Some (username c, password c)\<rparr>"

text \<open>
  \<^verbatim>\<open>list_buckets\<close>. \<open>json\<close> is \<^verbatim>\<open>response.json()\<close>: the parsed body, or the
  exception the parser raises.
\<close>

definition list_buckets ::
  "'w environment \<Rightarrow> (response \<Rightarrow> error + 'j) \<Rightarrow> 'w system \<Rightarrow> (error + 'j) \<times> 'w system"
where
  "list_buckets E json s =
     (case http E (list_buckets_request E (self s)) s of
        (ConnectionRefused, s') \<Rightarrow> (Inl ConnectionError, s')
      | (Response r, s') \<Rightarrow>
          if is_2xx r then (json r, s') else (Inl (RuntimeError (response_text r)), s'))"

section \<open>Observations on runs\<close>

text \<open>
  The definitions of this section are not methods of the class. They name what the
  theorems below say about a run: whether an exchange passed the 2xx test, the state after
  a number of rounds of the readiness loop, the events those rounds record, the four
  bootstrap requests in the order \<^verbatim>\<open>start\<close> sends them, and the requests of a trace.
\<close>

definition succeeded :: "outcome \<Rightarrow> bool" where
  "succeeded out = (case out of Response r \<Rightarrow> is_2xx r | ConnectionRefused \<Rightarrow> False)"

primrec polled :: "'w environment \<Rightarrow> 'w system \<Rightarrow> nat \<Rightarrow> 'w system" where
  "polled E s 0 = s"
| "polled E s (Suc k) = polled E (snd (attempt E s)) k"

text \<open>
  The round numbered \<open>n\<close> (from 0) is the first one whose exchange passes the 2xx test.
\<close>

definition first_success :: "'w environment \<Rightarrow> 'w system \<Rightarrow> nat \<Rightarrow> bool" where
  "first_success E s n \<longleftrightarrow>
     (\<forall>k<n. \<not> succeeded (fst (attempt E (polled E s k)))) \<and>
     succeeded (fst (attempt E (polled E s n)))"

primrec poll_events :: "'w environment \<Rightarrow> 'w system \<Rightarrow> nat \<Rightarrow> event list" where
  "poll_events E s 0 = []"
| "poll_events E s (Suc k) =
     [Sleep 1, Http (settings_request E) (fst (attempt E s))] @ poll_events E (snd (attempt E s)) k"

text \<open>
  The states in which the two polling loops of a run of \<^verbatim>\<open>start\<close> begin: the first
  after the start of the container, inside \<^verbatim>\<open>super().start()\<close>; the second after the
  first loop has left with its round \<open>n\<close>.
\<close>

definition first_wait :: "'w environment \<Rightarrow> 'w system \<Rightarrow> 'w system" where
  "first_wait E s =
     log_event (WaitForLogs ''and logs available in'') (snd (docker_start E (configure s)))"

definition second_wait :: "'w environment \<Rightarrow> 'w system \<Rightarrow> nat \<Rightarrow> 'w system" where
  "second_wait E s n =
     log_event (WaitForLogs ''and logs available in'') (polled E (first_wait E s) (Suc n))"

definition bootstrap_requests :: "'w environment \<Rightarrow> couchbase_container \<Rightarrow> request list" where
  "bootstrap_requests E c =
     [set_admin_credentials_request E c, create_bucket_request E c,
      create_scope_request E c, create_collection_request E c]"

definition bootstrap_operations ::
  "(('w environment \<Rightarrow> 'w system \<Rightarrow> (error + unit) \<times> 'w system) \<times>
    ('w environment \<Rightarrow> couchbase_container \<Rightarrow> request)) list"
where
  "bootstrap_operations =
     [(set_admin_credentials, set_admin_credentials_request),
      (create_bucket, create_bucket_request),
      (create_scope, create_scope_request),
      (create_collection, create_collection_request)]"

fun requests_of :: "event list \<Rightarrow> request list" where
  "requests_of [] = []"
| "requests_of (Http rq out # evs) = rq # requests_of evs"
| "requests_of (ev # evs) = requests_of evs"

text \<open>The five configuration values of the object.\<close>

definition configuration :: "couchbase_container \<Rightarrow> string \<times> string \<times> string \<times> string \<times> string" where
  "configuration c = (username c, password c, bucket c, scope c, collection c)"

definition posts_of :: "event list \<Rightarrow> request list" where
  "posts_of evs = filter (\<lambda>rq. meth rq = POST) (requests_of evs)"

text \<open>
  The precedence of a configuration value put in words: the explicit value when one is
  given and is not the empty string, else the value of the environment variable when it
  is set, else the fallback.
\<close>

definition precedence :: "string option \<Rightarrow> string option \<Rightarrow> string \<Rightarrow> string" where
  "precedence explicit from_environ fallback =
     (if explicit \<noteq> None \<and> explicit \<noteq> Some []
      then the explicit
      else if from_environ \<noteq> None then the from_environ else fallback)"

subsection \<open>Example runs\<close>

text \<open>
  A container as the constructor leaves it for the arguments of the test
  \<^verbatim>\<open>test_docker_run_couchbase\<close> and one port, and environments whose server state counts
  the requests served.
\<close>

definition example_base :: docker_container where
  "example_base =
     \<lparr>image_name = ''couchbase:latest'', env = Map.empty, exposed_ports = [], bind_ports = []\<rparr>"

definition example_args :: init_args where
  "example_args =
     \<lparr>arg_ports = None, arg_username = Some ''administrator'', arg_password = Some ''password'',
      arg_bucket = None, arg_scope = None, arg_collection = None\<rparr>"

definition example_container :: couchbase_container where
  "example_container =
     \<lparr>image_name = ''couchbase:latest'', env = Map.empty,
      exposed_ports = [8091], bind_ports = [(8091, 8091)],
      username = ''administrator'', password = ''password'',
      bucket = ''default'', scope = ''default'', collection = ''default''\<rparr>"

definition example_system :: "nat system" where
  "example_system = \<lparr>self = example_container, server = 0, trace = []\<rparr>"

definition example_environment :: "(nat \<Rightarrow> request \<Rightarrow> outcome) \<Rightarrow> nat environment" where
  "example_environment answer =
     \<lparr>get_container_host_ip = ''localhost'',
      get_exposed_port = (\<lambda>p. p),
      run_container = (\<lambda>w c. (None, w)),
      serve = (\<lambda>w rq. (answer w rq, Suc w)),
      cluster_connect = (\<lambda>w cl. None),
      cluster_ready = (\<lambda>w cl t. True)\<rparr>"

text \<open>Not listening for the first request, 503 for the second, 200 from then on.\<close>

definition late_server :: "nat \<Rightarrow> request \<Rightarrow> outcome" where
  "late_server w rq =
     (if w = 0 then ConnectionRefused
      else if w = 1 then Response \<lparr>status_code = 503, response_text = ''starting''\<rparr>
      else Response \<lparr>status_code = 200, response_text = ''ok''\<rparr>)"

text \<open>200 for every request.\<close>

definition accepting_server :: "nat \<Rightarrow> request \<Rightarrow> outcome" where
  "accepting_server w rq = Response \<lparr>status_code = 200, response_text = ''ok''\<rparr>"

text \<open>200 for every GET, 401 for every POST.\<close>

definition rejecting_server :: "nat \<Rightarrow> request \<Rightarrow> outcome" where
  "rejecting_server w rq =
     (if meth rq = GET then Response \<lparr>status_code = 200, response_text = ''[]''\<rparr>
      else Response \<lparr>status_code = 401, response_text = ''unauthorized''\<rparr>)"

text \<open>503 for every request, and a server that never listens.\<close>

definition unavailable_server :: "nat \<Rightarrow> request \<Rightarrow> outcome" where
  "unavailable_server w rq = Response \<lparr>status_code = 503, response_text = ''unavailable''\<rparr>"

definition closed_server :: "nat \<Rightarrow> request \<Rightarrow> outcome" where
  "closed_server w rq = ConnectionRefused"


section \<open>Basic facts\<close>

subsection \<open>Python values\<close>

lemma str_int_8091: "str_int 8091 = ''8091''"
  by (simp add: str_int_def str_nat.simps digit_char_def)

lemma lower_str_False: "lower (str_bool False) = ''false''"
  by code_simp

subsection \<open>One HTTP exchange\<close>

lemma http_self: "self (snd (http E rq s)) = self s"
  by (simp add: http_def split: prod.splits)

lemma http_trace: "trace (snd (http E rq s)) = trace s @ [Http rq (fst (http E rq s))]"
  by (simp add: http_def split: prod.splits)

lemma http_outcome: "fst (http E rq s) = fst (serve E (server s) rq)"
  by (simp add: http_def split: prod.splits)

lemma http_server: "server (snd (http E rq s)) = snd (serve E (server s) rq)"
  by (simp add: http_def split: prod.splits)

lemma request_methods:
  "meth (settings_request E) = GET"
  "meth (list_buckets_request E c) = GET"
  "meth (set_admin_credentials_request E c) = POST"
  "meth (create_bucket_request E c) = POST"
  "meth (create_scope_request E c) = POST"
  "meth (create_collection_request E c) = POST"
  by (simp_all add: settings_request_def list_buckets_request_def
        set_admin_credentials_request_def create_bucket_request_def create_scope_request_def
        create_collection_request_def)

subsection \<open>The 2xx test\<close>

lemma raise_unless_2xx_Response:
  "raise_unless_2xx (Response r) = (if is_2xx r then Inr () else Inl (RuntimeError (response_text r)))"
  by (simp add: raise_unless_2xx_def)

lemma raise_unless_2xx_succeeded: "succeeded out \<Longrightarrow> raise_unless_2xx out = Inr ()"
  by (cases out) (simp_all add: raise_unless_2xx_def succeeded_def)

lemma case_raise_unless_2xx:
  "(case raise_unless_2xx out of Inl e \<Rightarrow> Some (Inl e, t) | Inr u \<Rightarrow> X) =
     (if succeeded out then X else Some (raise_unless_2xx out, t))"
  by (simp add: raise_unless_2xx_def succeeded_def split: outcome.splits)

subsection \<open>The bootstrap methods\<close>

lemma set_admin_credentials_eq:
  "set_admin_credentials E s =
     (raise_unless_2xx (fst (http E (set_admin_credentials_request E (self s)) s)),
      snd (http E (set_admin_credentials_request E (self s)) s))"
  by (simp add: set_admin_credentials_def split: prod.splits)

lemma create_bucket_eq:
  "create_bucket E s =
     (raise_unless_2xx (fst (http E (create_bucket_request E (self s)) s)),
      snd (http E (create_bucket_request E (self s)) s))"
  by (simp add: create_bucket_def split: prod.splits)

lemma create_scope_eq:
  "create_scope E s =
     (raise_unless_2xx (fst (http E (create_scope_request E (self s)) s)),
      snd (http E (create_scope_request E (self s)) s))"
  by (simp add: create_scope_def split: prod.splits)

lemma create_collection_eq:
  "create_collection E s =
     (raise_unless_2xx (fst (http E (create_collection_request E (self s)) s)),
      snd (http E (create_collection_request E (self s)) s))"
  by (simp add: create_collection_def split: prod.splits)

lemma bootstrap_post_result:
  assumes "(op, request_for) \<in> set bootstrap_operations"
  shows "op E s = (raise_unless_2xx (fst (serve E (server s) (request_for E (self s)))),
                   snd (http E (request_for E (self s)) s))"
  using assms
  by (auto simp: bootstrap_operations_def set_admin_credentials_eq create_bucket_eq
        create_scope_eq create_collection_eq http_outcome)

lemma bootstrap_post_self:
  assumes "(op, request_for) \<in> set bootstrap_operations"
  shows "self (snd (op E s)) = self s"
  by (simp add: bootstrap_post_result[OF assms] http_self)

subsection \<open>Client and inspection\<close>

lemma client_self: "self (snd (client E s)) = self s"
  by (simp add: client_def Let_def log_event_def split: option.splits)

lemma client_server: "server (snd (client E s)) = server s"
  by (simp add: client_def Let_def log_event_def split: option.splits)

lemma list_buckets_eq:
  "list_buckets E json s =
     ((case fst (serve E (server s) (list_buckets_request E (self s))) of
         ConnectionRefused \<Rightarrow> Inl ConnectionError
       | Response r \<Rightarrow> if is_2xx r then json r else Inl (RuntimeError (response_text r))),
      snd (http E (list_buckets_request E (self s)) s))"
  by (simp add: list_buckets_def http_outcome[symmetric] split: prod.splits outcome.splits)

lemma list_buckets_self: "self (snd (list_buckets E json s)) = self s"
proof -
  have "self (snd (list_buckets E json s)) = self (snd (http E (list_buckets_request E (self s)) s))"
    by (simp add: list_buckets_def split: prod.splits outcome.splits)
  then show ?thesis by (simp add: http_self)
qed

subsection \<open>The constructor\<close>

lemma expose_and_bind_exposed: "exposed_ports (expose_and_bind ps c) = exposed_ports c @ ps"
  by (induction ps arbitrary: c) (simp_all add: with_exposed_ports_def with_bind_ports_def)

lemma expose_and_bind_bound:
  "bind_ports (expose_and_bind ps c) = bind_ports c @ map (\<lambda>p. (p, p)) ps"
  by (induction ps arbitrary: c) (simp_all add: with_exposed_ports_def with_bind_ports_def)

lemma expose_and_bind_fields:
  "username (expose_and_bind ps c) = username c"
  "password (expose_and_bind ps c) = password c"
  "bucket (expose_and_bind ps c) = bucket c"
  "scope (expose_and_bind ps c) = scope c"
  "collection (expose_and_bind ps c) = collection c"
  by (induction ps arbitrary: c) (simp_all add: with_exposed_ports_def with_bind_ports_def)

lemma expose_and_bind_configuration:
  "configuration (expose_and_bind ps c) = configuration c"
  by (simp add: configuration_def expose_and_bind_fields)

lemma init_Inr:
  assumes "init (Inr b) environ a = Inr c"
  shows "c = expose_and_bind
           (case arg_ports a of None \<Rightarrow> default_ports
            | Some ps \<Rightarrow> if length ps = 0 then default_ports else ps)
           \<lparr>image_name = image_name b, env = env b,
            exposed_ports = exposed_ports b, bind_ports = bind_ports b,
            username = py_or (arg_username a)
              (environ_get environ ''COUCHBASE_USERNAME'' ''Administrator''),
            password = py_or (arg_password a)
              (environ_get environ ''COUCHBASE_PASSWORD'' ''password''),
            bucket = py_or (arg_bucket a)
              (environ_get environ ''COUCHBASE_BUCKET'' ''default''),
            scope = py_or (arg_scope a)
              (environ_get environ ''COUCHBASE_SCOPE'' ''default''),
            collection = py_or (arg_collection a)
              (environ_get environ ''COUCHBASE_COLLECTION'' ''default'')\<rparr>"
  using assms unfolding init_def Let_def by simp

lemma init_returns: "\<exists>c. init (Inr b) environ a = Inr c"
  by (simp add: init_def Let_def)

lemma init_exposed_ports:
  assumes "init (Inr b) environ a = Inr c"
  shows "exposed_ports c = exposed_ports b @
           (case arg_ports a of None \<Rightarrow> default_ports
            | Some ps \<Rightarrow> if length ps = 0 then default_ports else ps)"
  by (subst init_Inr[OF assms], subst expose_and_bind_exposed) simp

lemma init_bind_ports:
  assumes "init (Inr b) environ a = Inr c"
  shows "bind_ports c = bind_ports b @ map (\<lambda>p. (p, p))
           (case arg_ports a of None \<Rightarrow> default_ports
            | Some ps \<Rightarrow> if length ps = 0 then default_ports else ps)"
  by (subst init_Inr[OF assms], subst expose_and_bind_bound) simp

lemma py_or_precedence: "py_or a (environ_get environ k d) = precedence a (environ k) d"
  by (cases a; cases "environ k") (simp_all add: py_or_def environ_get_def precedence_def)

lemma init_configuration:
  assumes "init (Inr b) environ a = Inr c"
  shows "configuration c =
     (precedence (arg_username a) (environ ''COUCHBASE_USERNAME'') ''Administrator'',
      precedence (arg_password a) (environ ''COUCHBASE_PASSWORD'') ''password'',
      precedence (arg_bucket a) (environ ''COUCHBASE_BUCKET'') ''default'',
      precedence (arg_scope a) (environ ''COUCHBASE_SCOPE'') ''default'',
      precedence (arg_collection a) (environ ''COUCHBASE_COLLECTION'') ''default'')"
  by (subst init_Inr[OF assms], subst expose_and_bind_configuration)
     (simp add: configuration_def py_or_precedence)

subsection \<open>Configure\<close>

lemma configure_fields:
  "username (self (configure s)) = username (self s)"
  "password (self (configure s)) = password (self s)"
  "bucket (self (configure s)) = bucket (self s)"
  "scope (self (configure s)) = scope (self s)"
  "collection (self (configure s)) = collection (self s)"
  by (simp_all add: configure_def with_env_def)

lemma configure_configuration: "configuration (self (configure s)) = configuration (self s)"
  by (simp add: configuration_def configure_fields)

lemma configure_trace: "trace (configure s) = trace s"
  by (simp add: configure_def)

lemma configure_server: "server (configure s) = server s"
  by (simp add: configure_def)

lemma configure_idem: "configure (configure s) = configure s"
proof -
  have "env (self (configure (configure s))) = env (self (configure s))"
    by (rule ext) (simp add: configure_def with_env_def)
  then show ?thesis by (simp add: configure_def with_env_def)
qed

lemma bootstrap_requests_configure:
  "bootstrap_requests E (self (configure s)) = bootstrap_requests E (self s)"
  by (simp add: bootstrap_requests_def set_admin_credentials_request_def create_bucket_request_def
        create_scope_request_def create_collection_request_def configure_fields)

lemma requests_configure:
  "set_admin_credentials_request E (self (configure s)) = set_admin_credentials_request E (self s)"
  "create_bucket_request E (self (configure s)) = create_bucket_request E (self s)"
  "create_scope_request E (self (configure s)) = create_scope_request E (self s)"
  "create_collection_request E (self (configure s)) = create_collection_request E (self s)"
  using bootstrap_requests_configure[of E s] by (simp_all add: bootstrap_requests_def)

subsection \<open>Requests of a trace\<close>

lemma requests_of_append: "requests_of (xs @ ys) = requests_of xs @ requests_of ys"
  by (induction xs rule: requests_of.induct) simp_all

lemma posts_of_append: "posts_of (xs @ ys) = posts_of xs @ posts_of ys"
  by (simp add: posts_of_def requests_of_append)

lemma requests_of_exchanges:
  "length outs = length rqs \<Longrightarrow>
   requests_of (map (\<lambda>(rq, out). Http rq out) (zip rqs outs)) = rqs"
  by (induction rqs outs rule: list_induct2') simp_all

section \<open>The readiness loop\<close>

lemma attempt_self: "self (snd (attempt E s)) = self s"
  by (simp add: attempt_def http_self log_event_def)

lemma attempt_outcome: "fst (attempt E s) = fst (serve E (server s) (settings_request E))"
  by (simp add: attempt_def http_outcome log_event_def)

lemma attempt_server: "server (snd (attempt E s)) = snd (serve E (server s) (settings_request E))"
  by (simp add: attempt_def http_server log_event_def)

lemma attempt_trace:
  "trace (snd (attempt E s)) = trace s @ [Sleep 1, Http (settings_request E) (fst (attempt E s))]"
  by (simp add: attempt_def http_trace log_event_def)

lemma poll_unfold:
  "poll E s = (if succeeded (fst (attempt E s)) then Some (snd (attempt E s))
               else poll E (snd (attempt E s)))"
  by (subst poll.simps) (simp add: succeeded_def split: prod.splits outcome.splits)

lemma poll_done: "succeeded (fst (attempt E s)) \<Longrightarrow> poll E s = Some (snd (attempt E s))"
  by (subst poll_unfold) simp

lemma polled_self: "self (polled E s k) = self s"
  by (induction k arbitrary: s) (simp_all add: attempt_self)

lemma polled_trace: "trace (polled E s k) = trace s @ poll_events E s k"
  by (induction k arbitrary: s) (simp_all add: attempt_trace)

lemma first_success_0: "first_success E s 0 \<longleftrightarrow> succeeded (fst (attempt E s))"
  by (simp add: first_success_def)

lemma first_success_Suc:
  "first_success E s (Suc n) \<longleftrightarrow>
     \<not> succeeded (fst (attempt E s)) \<and> first_success E (snd (attempt E s)) n"
proof -
  have "(\<forall>k<Suc n. \<not> succeeded (fst (attempt E (polled E s k)))) \<longleftrightarrow>
        \<not> succeeded (fst (attempt E s)) \<and>
        (\<forall>k<n. \<not> succeeded (fst (attempt E (polled E (snd (attempt E s)) k))))"
    (is "?L \<longleftrightarrow> ?R")
  proof
    assume l: ?L
    then have "\<not> succeeded (fst (attempt E (polled E s 0)))" by blast
    moreover have "\<not> succeeded (fst (attempt E (polled E (snd (attempt E s)) k)))" if "k < n" for k
    proof -
      from that have "Suc k < Suc n" by simp
      with l have "\<not> succeeded (fst (attempt E (polled E s (Suc k))))" by blast
      then show ?thesis by simp
    qed
    ultimately show ?R by simp
  next
    assume r: ?R
    show ?L
    proof (intro allI impI)
      fix k assume "k < Suc n"
      with r show "\<not> succeeded (fst (attempt E (polled E s k)))" by (cases k) simp_all
    qed
  qed
  then show ?thesis by (simp add: first_success_def)
qed

text \<open>
  The loop returns exactly when some round is the first to pass the 2xx test, and then with
  the state after that round. One direction is an induction on the number of rounds, the
  other the fixpoint induction of the partial function.
\<close>

lemma poll_reaches:
  "first_success E s n \<Longrightarrow> poll E s = Some (polled E s (Suc n))"
proof (induction n arbitrary: s)
  case 0
  then show ?case by (subst poll_unfold) (simp add: first_success_0)
next
  case (Suc n)
  then have "\<not> succeeded (fst (attempt E s))" and "first_success E (snd (attempt E s)) n"
    by (simp_all add: first_success_Suc)
  with Suc.IH[of "snd (attempt E s)"] show ?case by (subst poll_unfold) simp
qed

lemma poll_returns:
  assumes "poll E s = Some s'"
  shows "\<exists>n. first_success E s n \<and> s' = polled E s (Suc n)"
proof (rule poll.raw_induct[where P = "\<lambda>E s s'. \<exists>n. first_success E s n \<and> s' = polled E s (Suc n)",
      OF _ assms], goal_cases)
  case (1 f E s s')
  show ?case
  proof (cases "succeeded (fst (attempt E s))")
    case True
    with 1(2) have "s' = snd (attempt E s)"
      by (auto simp: succeeded_def split: prod.splits outcome.splits if_splits)
    with True show ?thesis by (intro exI[of _ 0]) (simp add: first_success_0)
  next
    case False
    with 1(2) have "f E (snd (attempt E s)) = Some s'"
      by (auto simp: succeeded_def split: prod.splits outcome.splits if_splits)
    then have "\<exists>n. first_success E (snd (attempt E s)) n \<and> s' = polled E (snd (attempt E s)) (Suc n)"
      by (rule 1(1))
    then obtain n where "first_success E (snd (attempt E s)) n"
      and "s' = polled E (snd (attempt E s)) (Suc n)" by (elim exE conjE)
    with False show ?thesis by (intro exI[of _ "Suc n"]) (simp add: first_success_Suc)
  qed
qed

lemma poll_Some_iff:
  "poll E s = Some s' \<longleftrightarrow> (\<exists>n. first_success E s n \<and> s' = polled E s (Suc n))"
  using poll_returns[of E s s'] poll_reaches[of E s] by auto

lemma poll_None_iff: "poll E s = None \<longleftrightarrow> (\<forall>n. \<not> first_success E s n)"
proof
  assume "poll E s = None"
  then show "\<forall>n. \<not> first_success E s n" using poll_reaches[of E s] by auto
next
  assume "\<forall>n. \<not> first_success E s n"
  then show "poll E s = None" using poll_returns[of E s] by (cases "poll E s") auto
qed

lemma some_success_first_success:
  assumes "succeeded (fst (attempt E (polled E s k)))"
  shows "\<exists>n. first_success E s n"
proof -
  let ?P = "\<lambda>k. succeeded (fst (attempt E (polled E s k)))"
  from assms have "?P (LEAST k. ?P k)" by (rule LeastI)
  moreover have "\<forall>j<(LEAST k. ?P k). \<not> ?P j" using not_less_Least by blast
  ultimately show ?thesis unfolding first_success_def by blast
qed

lemma no_first_success_iff:
  "(\<forall>n. \<not> first_success E s n) \<longleftrightarrow> (\<forall>k. \<not> succeeded (fst (attempt E (polled E s k))))"
proof
  assume "\<forall>n. \<not> first_success E s n"
  then show "\<forall>k. \<not> succeeded (fst (attempt E (polled E s k)))"
    using some_success_first_success[of E s] by blast
next
  assume "\<forall>k. \<not> succeeded (fst (attempt E (polled E s k)))"
  then show "\<forall>n. \<not> first_success E s n" by (simp add: first_success_def)
qed

lemma connect_Some_iff:
  "connect E s = Some (r, s') \<longleftrightarrow>
     r = Inr () \<and> (\<exists>n. first_success E (log_event (WaitForLogs ''and logs available in'') s) n \<and>
                     s' = polled E (log_event (WaitForLogs ''and logs available in'') s) (Suc n))"
  by (auto simp: connect_def poll_Some_iff)

lemma connect_None_iff:
  "connect E s = None \<longleftrightarrow>
     (\<forall>k. \<not> succeeded (fst (attempt E
             (polled E (log_event (WaitForLogs ''and logs available in'') s) k))))"
  by (simp add: connect_def poll_None_iff no_first_success_iff)

lemma connect_result:
  assumes "connect E s = Some (r, s1)"
  shows "r = Inr ()"
    and "self s1 = self s"
    and "\<exists>n. first_success E (log_event (WaitForLogs ''and logs available in'') s) n \<and>
             trace s1 = trace s @ [WaitForLogs ''and logs available in''] @
               poll_events E (log_event (WaitForLogs ''and logs available in'') s) (Suc n)"
proof -
  from assms show "r = Inr ()" by (simp add: connect_Some_iff)
  from assms obtain n where n:
    "first_success E (log_event (WaitForLogs ''and logs available in'') s) n"
    "s1 = polled E (log_event (WaitForLogs ''and logs available in'') s) (Suc n)"
    unfolding connect_Some_iff by (elim exE conjE)
  from n(2) show "self s1 = self s" by (simp only: polled_self) (simp add: log_event_def)
  from n show "\<exists>n. first_success E (log_event (WaitForLogs ''and logs available in'') s) n \<and>
             trace s1 = trace s @ [WaitForLogs ''and logs available in''] @
               poll_events E (log_event (WaitForLogs ''and logs available in'') s) (Suc n)"
    by (intro exI[of _ n]) (simp only: polled_trace, simp add: log_event_def)
qed

lemma connect_self: "connect E s = Some (r, s') \<Longrightarrow> self s' = self s"
  by (rule connect_result(2))

lemma posts_of_poll_events: "posts_of (poll_events E s k) = []"
  by (induction k arbitrary: s) (simp_all add: posts_of_def request_methods)

section \<open>Start\<close>

lemma docker_start_result:
  "fst (docker_start E s) =
     (case fst (run_container E (server s) (self s)) of None \<Rightarrow> Inr () | Some e \<Rightarrow> Inl e)"
  by (simp add: docker_start_def split: prod.splits)

lemma docker_start_trace:
  "trace (snd (docker_start E s)) =
     trace s @ [DockerStart (fst (run_container E (server s) (self s)))]"
  by (simp add: docker_start_def split: prod.splits)

lemma docker_start_self: "self (snd (docker_start E s)) = self s"
  by (simp add: docker_start_def split: prod.splits)

lemma db_container_start_eq:
  "db_container_start E s =
     (case fst (run_container E (server s) (self (configure s))) of
        Some e \<Rightarrow> Some (Inl e, snd (docker_start E (configure s)))
      | None \<Rightarrow> connect E (snd (docker_start E (configure s))))"
proof -
  obtain r s1 where d: "docker_start E (configure s) = (r, s1)" by (cases "docker_start E (configure s)")
  then have "r = (case fst (run_container E (server s) (self (configure s))) of
                    None \<Rightarrow> Inr () | Some e \<Rightarrow> Inl e)"
    using docker_start_result[of E "configure s"] by (simp add: configure_server)
  with d show ?thesis
    by (simp add: db_container_start_def split: option.splits)
qed

lemma start_container_fails:
  assumes "fst (run_container E (server s) (self (configure s))) = Some e"
  shows "start E s = Some (Inl e, snd (docker_start E (configure s)))"
  using assms by (simp add: start_def db_container_start_eq configure_idem configure_server)

lemma start_unfold:
  assumes "fst (run_container E (server s) (self (configure s))) = None"
    and "connect E (snd (docker_start E (configure s))) = Some (Inr (), s0)"
    and "connect E s0 = Some (Inr (), s1)"
    and "bootstrap_requests E (self s1) = [rq1, rq2, rq3, rq4]"
  shows "start E s = Some
     (if succeeded (fst (http E rq1 s1)) then
        if succeeded (fst (http E rq2 (snd (http E rq1 s1)))) then
          if succeeded (fst (http E rq3 (snd (http E rq2 (snd (http E rq1 s1)))))) then
            (raise_unless_2xx (fst (http E rq4 (snd (http E rq3 (snd (http E rq2 (snd (http E rq1 s1)))))))),
             snd (http E rq4 (snd (http E rq3 (snd (http E rq2 (snd (http E rq1 s1))))))))
          else (raise_unless_2xx (fst (http E rq3 (snd (http E rq2 (snd (http E rq1 s1)))))),
                snd (http E rq3 (snd (http E rq2 (snd (http E rq1 s1))))))
        else (raise_unless_2xx (fst (http E rq2 (snd (http E rq1 s1)))),
              snd (http E rq2 (snd (http E rq1 s1))))
      else (raise_unless_2xx (fst (http E rq1 s1)), snd (http E rq1 s1)))"
proof -
  from assms(4) have rq:
    "set_admin_credentials_request E (self s1) = rq1" "create_bucket_request E (self s1) = rq2"
    "create_scope_request E (self s1) = rq3" "create_collection_request E (self s1) = rq4"
    by (simp_all add: bootstrap_requests_def)
  have r2: "create_bucket_request E (self (snd (http E rq1 s1))) = rq2"
    using rq(2) by (simp add: http_self)
  have r3: "create_scope_request E (self (snd (http E rq2 (snd (http E rq1 s1))))) = rq3"
    using rq(3) by (simp add: http_self)
  have r4: "create_collection_request E
              (self (snd (http E rq3 (snd (http E rq2 (snd (http E rq1 s1))))))) = rq4"
    using rq(4) by (simp add: http_self)
  have "db_container_start E (configure s) = Some (Inr (), s0)"
    using assms(1,2) by (simp add: db_container_start_eq configure_idem configure_server)
  then show ?thesis
    unfolding start_def
    by (simp add: assms(3) set_admin_credentials_eq create_bucket_eq create_scope_eq
          create_collection_eq rq(1) r2 r3 r4 case_raise_unless_2xx raise_unless_2xx_succeeded)
qed

lemma start_waits:
  assumes "fst (run_container E (server s) (self (configure s))) = None"
    and "start E s = Some (r, s')"
  shows "\<exists>n m. first_success E (first_wait E s) n \<and> first_success E (second_wait E s n) m \<and>
           connect E (snd (docker_start E (configure s))) =
             Some (Inr (), polled E (first_wait E s) (Suc n)) \<and>
           connect E (polled E (first_wait E s) (Suc n)) =
             Some (Inr (), polled E (second_wait E s n) (Suc m))"
proof -
  let ?sd = "snd (docker_start E (configure s))"
  have db: "db_container_start E (configure s) = connect E ?sd"
    using assms(1) by (simp add: db_container_start_eq configure_idem configure_server)
  from assms(2) obtain r0 s0 where c0: "connect E ?sd = Some (r0, s0)"
    by (cases "connect E ?sd") (auto simp: start_def db)
  then obtain n where n: "r0 = Inr ()" "first_success E (first_wait E s) n"
    "s0 = polled E (first_wait E s) (Suc n)"
    unfolding connect_Some_iff first_wait_def by (elim exE conjE)
  from assms(2) c0 n(1) obtain r1 s1 where c1: "connect E s0 = Some (r1, s1)"
    by (cases "connect E s0") (auto simp: start_def db)
  then obtain m where m: "r1 = Inr ()"
    "first_success E (log_event (WaitForLogs ''and logs available in'') s0) m"
    "s1 = polled E (log_event (WaitForLogs ''and logs available in'') s0) (Suc m)"
    unfolding connect_Some_iff by (elim exE conjE)
  from c0 c1 n m show ?thesis
    by (intro exI[of _ n] exI[of _ m]) (simp add: second_wait_def)
qed

lemma second_wait_trace:
  assumes "fst (run_container E (server s) (self (configure s))) = None"
  shows "trace (polled E (second_wait E s n) (Suc m)) =
     trace s @ [DockerStart None, WaitForLogs ''and logs available in'']
       @ poll_events E (first_wait E s) (Suc n)
       @ [WaitForLogs ''and logs available in'']
       @ poll_events E (second_wait E s n) (Suc m)"
proof -
  have "trace (first_wait E s) = trace s @ [DockerStart None, WaitForLogs ''and logs available in'']"
    using assms
    by (simp add: first_wait_def log_event_def docker_start_trace configure_server configure_trace)
  then have "trace (second_wait E s n) =
     trace s @ [DockerStart None, WaitForLogs ''and logs available in'']
       @ poll_events E (first_wait E s) (Suc n) @ [WaitForLogs ''and logs available in'']"
    by (simp only: second_wait_def log_event_def polled_trace) simp
  then show ?thesis by (simp only: polled_trace) simp
qed

lemma second_wait_self: "self (polled E (second_wait E s n) (Suc m)) = self (configure s)"
  by (simp add: polled_self attempt_self second_wait_def first_wait_def log_event_def
        docker_start_self)

lemma hd_in_butlast: "xs \<noteq> [] \<Longrightarrow> length xs \<noteq> 1 \<Longrightarrow> hd xs \<in> set (butlast xs)"
  by (cases xs) (auto split: if_splits)

text \<open>
  Every run of \<^verbatim>\<open>start\<close> that returns after the container has started has made two
  readiness waits, each left at a first success, and has then sent a non-empty prefix of
  the four bootstrap requests: each request but the last one sent was answered with a 2xx
  status, and the result is the result of the last one.
\<close>

lemma start_cases:
  assumes "fst (run_container E (server s) (self (configure s))) = None"
    and "start E s = Some (r, s')"
  shows "\<exists>n m outs.
     first_success E (first_wait E s) n \<and> first_success E (second_wait E s n) m
   \<and> trace s' = trace s @ [DockerStart None, WaitForLogs ''and logs available in'']
        @ poll_events E (first_wait E s) (Suc n)
        @ [WaitForLogs ''and logs available in'']
        @ poll_events E (second_wait E s n) (Suc m)
        @ map (\<lambda>(rq, out). Http rq out) (zip (bootstrap_requests E (self s)) outs)
   \<and> outs \<noteq> [] \<and> length outs \<le> 4
   \<and> (\<forall>out \<in> set (butlast outs). succeeded out)
   \<and> r = raise_unless_2xx (last outs)
   \<and> (succeeded (last outs) \<longrightarrow> length outs = 4)
   \<and> self s' = self (configure s)"
proof -
  from start_waits[OF assms] obtain n m where
        fs: "first_success E (first_wait E s) n" "first_success E (second_wait E s n) m"
    and c0: "connect E (snd (docker_start E (configure s))) =
             Some (Inr (), polled E (first_wait E s) (Suc n))"
    and c1: "connect E (polled E (first_wait E s) (Suc n)) =
             Some (Inr (), polled E (second_wait E s n) (Suc m))"
    by blast
  define s1 where "s1 = polled E (second_wait E s n) (Suc m)"
  have self1: "self s1 = self (configure s)"
    unfolding s1_def by (rule second_wait_self)
  have tr1: "trace s1 = trace s @ [DockerStart None, WaitForLogs ''and logs available in'']
       @ poll_events E (first_wait E s) (Suc n)
       @ [WaitForLogs ''and logs available in'']
       @ poll_events E (second_wait E s n) (Suc m)"
    unfolding s1_def by (rule second_wait_trace[OF assms(1)])
  obtain rq1 rq2 rq3 rq4 where rqs: "bootstrap_requests E (self s) = [rq1, rq2, rq3, rq4]"
    by (simp add: bootstrap_requests_def)
  then have rqs1: "bootstrap_requests E (self s1) = [rq1, rq2, rq3, rq4]"
    by (simp add: self1 bootstrap_requests_configure)
  define o1 where "o1 = fst (http E rq1 s1)"
  define t1 where "t1 = snd (http E rq1 s1)"
  define o2 where "o2 = fst (http E rq2 t1)"
  define t2 where "t2 = snd (http E rq2 t1)"
  define o3 where "o3 = fst (http E rq3 t2)"
  define t3 where "t3 = snd (http E rq3 t2)"
  define o4 where "o4 = fst (http E rq4 t3)"
  define t4 where "t4 = snd (http E rq4 t3)"
  have tt: "trace t1 = trace s1 @ [Http rq1 o1]" "trace t2 = trace t1 @ [Http rq2 o2]"
    "trace t3 = trace t2 @ [Http rq3 o3]" "trace t4 = trace t3 @ [Http rq4 o4]"
    and ss: "self t1 = self s1" "self t2 = self t1" "self t3 = self t2" "self t4 = self t3"
    by (simp_all add: o1_def t1_def o2_def t2_def o3_def t3_def o4_def t4_def http_trace http_self)
  from c1 have c1': "connect E (polled E (first_wait E s) (Suc n)) = Some (Inr (), s1)"
    by (simp add: s1_def)
  from start_unfold[OF assms(1) c0 c1' rqs1] assms(2) have st:
    "(r, s') = (if succeeded o1 then if succeeded o2 then if succeeded o3
         then (raise_unless_2xx o4, t4) else (raise_unless_2xx o3, t3)
         else (raise_unless_2xx o2, t2) else (raise_unless_2xx o1, t1))"
    by (simp add: o1_def t1_def o2_def t2_def o3_def t3_def o4_def t4_def)
  consider (a) "\<not> succeeded o1"
    | (b) "succeeded o1" "\<not> succeeded o2"
    | (c) "succeeded o1" "succeeded o2" "\<not> succeeded o3"
    | (d) "succeeded o1" "succeeded o2" "succeeded o3" by blast
  then show ?thesis
  proof cases
    case a
    with st have "r = raise_unless_2xx o1" "s' = t1" by simp_all
    with a fs show ?thesis
      by (intro exI[of _ n] exI[of _ m] exI[of _ "[o1]"]) (simp add: tt ss tr1 self1 rqs)
  next
    case b
    with st have "r = raise_unless_2xx o2" "s' = t2" by simp_all
    with b fs show ?thesis
      by (intro exI[of _ n] exI[of _ m] exI[of _ "[o1, o2]"]) (simp add: tt ss tr1 self1 rqs)
  next
    case c
    with st have "r = raise_unless_2xx o3" "s' = t3" by simp_all
    with c fs show ?thesis
      by (intro exI[of _ n] exI[of _ m] exI[of _ "[o1, o2, o3]"]) (simp add: tt ss tr1 self1 rqs)
  next
    case d
    with st have "r = raise_unless_2xx o4" "s' = t4" by simp_all
    with d fs show ?thesis
      by (intro exI[of _ n] exI[of _ m] exI[of _ "[o1, o2, o3, o4]"]) (simp add: tt ss tr1 self1 rqs)
  qed
qed

lemma start_self:
  assumes "start E s = Some (r, s')"
  shows "self s' = self (configure s)"
proof (cases "fst (run_container E (server s) (self (configure s)))")
  case None
  from start_cases[OF None assms] show ?thesis by blast
next
  case (Some e)
  from assms start_container_fails[OF Some] have "s' = snd (docker_start E (configure s))"
    by simp
  then show ?thesis by (simp add: docker_start_self)
qed

lemma start_success_posts:
  assumes "start E s = Some (Inr (), s')"
  shows "posts_of (trace s') = posts_of (trace s) @ bootstrap_requests E (self s)"
proof (cases "fst (run_container E (server s) (self (configure s)))")
  case (Some e)
  from assms start_container_fails[OF Some] show ?thesis by simp
next
  case None
  from start_cases[OF None assms] obtain n m outs where *:
    "trace s' = trace s @ [DockerStart None, WaitForLogs ''and logs available in'']
        @ poll_events E (first_wait E s) (Suc n)
        @ [WaitForLogs ''and logs available in'']
        @ poll_events E (second_wait E s n) (Suc m)
        @ map (\<lambda>(rq, out). Http rq out) (zip (bootstrap_requests E (self s)) outs)"
    "Inr () = raise_unless_2xx (last outs)" "succeeded (last outs) \<longrightarrow> length outs = 4"
    by blast
  from *(2) have "succeeded (last outs)"
    by (cases "last outs") (simp_all add: raise_unless_2xx_def succeeded_def split: if_splits)
  with *(3) have "length outs = length (bootstrap_requests E (self s))"
    by (simp add: bootstrap_requests_def)
  then have "requests_of (map (\<lambda>(rq, out). Http rq out) (zip (bootstrap_requests E (self s)) outs))
               = bootstrap_requests E (self s)"
    by (rule requests_of_exchanges)
  then have "posts_of (map (\<lambda>(rq, out). Http rq out) (zip (bootstrap_requests E (self s)) outs))
               = bootstrap_requests E (self s)"
    by (simp add: posts_of_def bootstrap_requests_def request_methods)
  moreover have "posts_of [DockerStart None, WaitForLogs ''and logs available in''] = []"
    "posts_of [WaitForLogs ''and logs available in''] = []"
    by (simp_all add: posts_of_def)
  ultimately show ?thesis
    unfolding *(1) by (simp only: posts_of_append posts_of_poll_events append_Nil append_Nil2)
qed

lemma start_None_connect:
  assumes "fst (run_container E (server s) (self (configure s))) = None"
  shows "start E s = None \<longleftrightarrow>
           connect E (snd (docker_start E (configure s))) = None \<or>
           (\<exists>s0. connect E (snd (docker_start E (configure s))) = Some (Inr (), s0) \<and>
                 connect E s0 = None)"
proof -
  have db: "db_container_start E (configure s) = connect E (snd (docker_start E (configure s)))"
    using assms by (simp add: db_container_start_eq configure_idem configure_server)
  show ?thesis
  proof (cases "connect E (snd (docker_start E (configure s)))")
    case None
    then show ?thesis by (simp add: start_def db)
  next
    case (Some a)
    obtain r0 s0 where a: "a = (r0, s0)" by (cases a)
    with Some have r0: "r0 = Inr ()" by (simp add: connect_Some_iff)
    show ?thesis
    proof (cases "connect E s0")
      case None
      with Some a r0 show ?thesis by (simp add: start_def db)
    next
      case inner: (Some b)
      obtain r1 s1 where b: "b = (r1, s1)" by (cases b)
      with inner have "r1 = Inr ()" by (simp add: connect_Some_iff)
      with Some a r0 inner b show ?thesis
        by (simp add: start_def db split: prod.splits sum.splits)
    qed
  qed
qed

lemma start_None_iff:
  "start E s = None \<longleftrightarrow>
     fst (run_container E (server s) (self (configure s))) = None \<and>
     ((\<forall>k. \<not> succeeded (fst (attempt E (polled E (first_wait E s) k)))) \<or>
      (\<exists>n. first_success E (first_wait E s) n \<and>
           (\<forall>k. \<not> succeeded (fst (attempt E (polled E (second_wait E s n) k))))))"
proof (cases "fst (run_container E (server s) (self (configure s)))")
  case (Some e)
  then show ?thesis by (simp add: start_container_fails)
next
  case None
  have "(\<exists>s0. connect E (snd (docker_start E (configure s))) = Some (Inr (), s0) \<and>
             connect E s0 = None) \<longleftrightarrow>
        (\<exists>n. first_success E (first_wait E s) n \<and>
           (\<forall>k. \<not> succeeded (fst (attempt E (polled E (second_wait E s n) k)))))"
    by (auto simp: connect_Some_iff connect_None_iff first_wait_def second_wait_def)
  with None show ?thesis
    by (simp add: start_None_connect connect_None_iff first_wait_def)
qed

section \<open>Example runs\<close>

lemma example_http:
  "http (example_environment answer) rq s =
     (answer (server s) rq,
      s\<lparr>server := Suc (server s), trace := trace s @ [Http rq (answer (server s) rq)]\<rparr>)"
  by (simp add: http_def example_environment_def)

lemma example_docker_start:
  "docker_start (example_environment answer) s =
     (Inr (), s\<lparr>trace := trace s @ [DockerStart None]\<rparr>)"
  by (simp add: docker_start_def example_environment_def)

lemma example_run_container:
  "fst (run_container (example_environment answer) w c) = None"
  by (simp add: example_environment_def)

lemma example_system_simps:
  "self example_system = example_container" "server example_system = 0"
  "trace example_system = []"
  by (simp_all add: example_system_def)

lemma example_management_url: "management_url (example_environment answer) = ''http://localhost:8091''"
  by (simp add: management_url_def example_environment_def str_int_8091)

lemma late_server_first_success:
  "first_success (example_environment late_server)
     (log_event (WaitForLogs ''and logs available in'') example_system) (Suc (Suc 0))"
  by (simp add: first_success_Suc first_success_0 attempt_outcome attempt_server log_event_def
        example_environment_def example_system_def late_server_def succeeded_def is_2xx_def)

section \<open>The claims\<close>

text \<open>
  C1. Every run of \<^verbatim>\<open>start\<close> makes its calls in the order: start of the container,
  readiness wait (log line, then polling) inside \<^verbatim>\<open>super().start()\<close>, a second readiness
  wait, then \<^verbatim>\<open>set_admin_credentials\<close>, bucket, scope and collection creation. When the
  start of the container raises, the run ends with that exception and nothing else is
  called. The run never returns exactly when the container has started and one of the two
  waits never gets a 2xx status, and then no bootstrap request is sent. Otherwise the run
  has sent, after the polls, a non-empty prefix of the four bootstrap requests; every
  request before the last one sent succeeded, the result of \<^verbatim>\<open>start\<close> is the result of
  the last one sent, success means that all four were sent, and a failing credentials call
  is the only bootstrap request of the run. The polling rounds contain no POST.
\<close>

theorem start_strict_order:
  "(start E s = None \<longleftrightarrow>
      fst (run_container E (server s) (self (configure s))) = None \<and>
      ((\<forall>k. \<not> succeeded (fst (attempt E (polled E (first_wait E s) k)))) \<or>
       (\<exists>n. first_success E (first_wait E s) n \<and>
            (\<forall>k. \<not> succeeded (fst (attempt E (polled E (second_wait E s n) k)))))))
   \<and> (start E s = Some (r, s') \<longrightarrow>
      (case fst (run_container E (server s) (self (configure s))) of
         Some e \<Rightarrow> r = Inl e \<and> trace s' = trace s @ [DockerStart (Some e)]
       | None \<Rightarrow>
      (\<exists>n m outs.
         trace s' = trace s @ [DockerStart None, WaitForLogs ''and logs available in'']
           @ poll_events E (first_wait E s) (Suc n)
           @ [WaitForLogs ''and logs available in'']
           @ poll_events E (second_wait E s n) (Suc m)
           @ map (\<lambda>(rq, out). Http rq out)
               (zip [set_admin_credentials_request E (self s), create_bucket_request E (self s),
                     create_scope_request E (self s), create_collection_request E (self s)] outs)
       \<and> outs \<noteq> [] \<and> length outs \<le> 4
       \<and> (\<forall>out \<in> set (butlast outs). succeeded out)
       \<and> r = raise_unless_2xx (last outs)
       \<and> (succeeded (last outs) \<longrightarrow> length outs = 4)
       \<and> (\<not> succeeded (hd outs) \<longrightarrow> length outs = 1))))
   \<and> posts_of (poll_events E x k) = []"
proof (intro conjI impI)
  show "start E s = None \<longleftrightarrow>
      fst (run_container E (server s) (self (configure s))) = None \<and>
      ((\<forall>k. \<not> succeeded (fst (attempt E (polled E (first_wait E s) k)))) \<or>
       (\<exists>n. first_success E (first_wait E s) n \<and>
            (\<forall>k. \<not> succeeded (fst (attempt E (polled E (second_wait E s n) k))))))"
    by (rule start_None_iff)
next
  show "posts_of (poll_events E x k) = []" by (rule posts_of_poll_events)
next
  assume run: "start E s = Some (r, s')"
  show "case fst (run_container E (server s) (self (configure s))) of
         Some e \<Rightarrow> r = Inl e \<and> trace s' = trace s @ [DockerStart (Some e)]
       | None \<Rightarrow>
      (\<exists>n m outs.
         trace s' = trace s @ [DockerStart None, WaitForLogs ''and logs available in'']
           @ poll_events E (first_wait E s) (Suc n)
           @ [WaitForLogs ''and logs available in'']
           @ poll_events E (second_wait E s n) (Suc m)
           @ map (\<lambda>(rq, out). Http rq out)
               (zip [set_admin_credentials_request E (self s), create_bucket_request E (self s),
                     create_scope_request E (self s), create_collection_request E (self s)] outs)
       \<and> outs \<noteq> [] \<and> length outs \<le> 4
       \<and> (\<forall>out \<in> set (butlast outs). succeeded out)
       \<and> r = raise_unless_2xx (last outs)
       \<and> (succeeded (last outs) \<longrightarrow> length outs = 4)
       \<and> (\<not> succeeded (hd outs) \<longrightarrow> length outs = 1))"
  proof (cases "fst (run_container E (server s) (self (configure s)))")
    case (Some e)
    from run start_container_fails[OF Some]
    have "r = Inl e" and "s' = snd (docker_start E (configure s))" by simp_all
    moreover have "trace (snd (docker_start E (configure s))) = trace s @ [DockerStart (Some e)]"
      using Some by (simp add: docker_start_trace configure_server configure_trace)
    ultimately show ?thesis using Some by simp
  next
    case None
    from start_cases[OF None run] obtain n m outs where *:
      "trace s' = trace s @ [DockerStart None, WaitForLogs ''and logs available in'']
        @ poll_events E (first_wait E s) (Suc n)
        @ [WaitForLogs ''and logs available in'']
        @ poll_events E (second_wait E s n) (Suc m)
        @ map (\<lambda>(rq, out). Http rq out) (zip (bootstrap_requests E (self s)) outs)"
      "outs \<noteq> []" "length outs \<le> 4" "\<forall>out \<in> set (butlast outs). succeeded out"
      "r = raise_unless_2xx (last outs)" "succeeded (last outs) \<longrightarrow> length outs = 4"
      by blast
    from *(2,4) have "\<not> succeeded (hd outs) \<longrightarrow> length outs = 1"
      using hd_in_butlast[of outs] by blast
    with * have "\<exists>n m outs.
         trace s' = trace s @ [DockerStart None, WaitForLogs ''and logs available in'']
           @ poll_events E (first_wait E s) (Suc n)
           @ [WaitForLogs ''and logs available in'']
           @ poll_events E (second_wait E s n) (Suc m)
           @ map (\<lambda>(rq, out). Http rq out)
               (zip [set_admin_credentials_request E (self s), create_bucket_request E (self s),
                     create_scope_request E (self s), create_collection_request E (self s)] outs)
       \<and> outs \<noteq> [] \<and> length outs \<le> 4
       \<and> (\<forall>out \<in> set (butlast outs). succeeded out)
       \<and> r = raise_unless_2xx (last outs)
       \<and> (succeeded (last outs) \<longrightarrow> length outs = 4)
       \<and> (\<not> succeeded (hd outs) \<longrightarrow> length outs = 1)"
      unfolding bootstrap_requests_def by (intro exI[of _ n] exI[of _ m] exI[of _ outs]) simp
    with None show ?thesis by simp
  qed
qed

theorem start_strict_order_witness:
  "start (example_environment rejecting_server) example_system =
     Some (Inl (RuntimeError ''unauthorized''),
           (configure example_system)
             \<lparr>server := 3,
              trace := [DockerStart None,
                     WaitForLogs ''and logs available in'', Sleep 1,
                     Http (settings_request (example_environment rejecting_server))
                       (Response \<lparr>status_code = 200, response_text = ''[]''\<rparr>),
                     WaitForLogs ''and logs available in'', Sleep 1,
                     Http (settings_request (example_environment rejecting_server))
                       (Response \<lparr>status_code = 200, response_text = ''[]''\<rparr>),
                     Http (set_admin_credentials_request (example_environment rejecting_server)
                             example_container)
                       (Response \<lparr>status_code = 401, response_text = ''unauthorized''\<rparr>)]\<rparr>)
   \<and> (\<exists>n m outs.
         [DockerStart None,
          WaitForLogs ''and logs available in'', Sleep 1,
          Http (settings_request (example_environment rejecting_server))
            (Response \<lparr>status_code = 200, response_text = ''[]''\<rparr>),
          WaitForLogs ''and logs available in'', Sleep 1,
          Http (settings_request (example_environment rejecting_server))
            (Response \<lparr>status_code = 200, response_text = ''[]''\<rparr>),
          Http (set_admin_credentials_request (example_environment rejecting_server)
                  example_container)
            (Response \<lparr>status_code = 401, response_text = ''unauthorized''\<rparr>)]
         = [DockerStart None, WaitForLogs ''and logs available in'']
           @ poll_events (example_environment rejecting_server)
               (first_wait (example_environment rejecting_server) example_system) (Suc n)
           @ [WaitForLogs ''and logs available in'']
           @ poll_events (example_environment rejecting_server)
               (second_wait (example_environment rejecting_server) example_system n) (Suc m)
           @ map (\<lambda>(rq, out). Http rq out)
               (zip [set_admin_credentials_request (example_environment rejecting_server)
                       example_container,
                     create_bucket_request (example_environment rejecting_server)
                       example_container,
                     create_scope_request (example_environment rejecting_server)
                       example_container,
                     create_collection_request (example_environment rejecting_server)
                       example_container] outs)
       \<and> outs \<noteq> [] \<and> length outs \<le> 4
       \<and> (\<forall>out \<in> set (butlast outs). succeeded out)
       \<and> Inl (RuntimeError ''unauthorized'') = raise_unless_2xx (last outs)
       \<and> (succeeded (last outs) \<longrightarrow> length outs = 4)
       \<and> (\<not> succeeded (hd outs) \<longrightarrow> length outs = 1))
   \<and> start ((example_environment accepting_server)
               \<lparr>run_container := \<lambda>w c. (Some (DockerError ''no such image''), w)\<rparr>)
         example_system =
     Some (Inl (DockerError ''no such image''),
           (configure example_system)
             \<lparr>trace := [DockerStart (Some (DockerError ''no such image''))]\<rparr>)"
proof -
  have run: "start (example_environment rejecting_server) example_system =
     Some (Inl (RuntimeError ''unauthorized''),
           (configure example_system)
             \<lparr>server := 3,
              trace := [DockerStart None,
                     WaitForLogs ''and logs available in'', Sleep 1,
                     Http (settings_request (example_environment rejecting_server))
                       (Response \<lparr>status_code = 200, response_text = ''[]''\<rparr>),
                     WaitForLogs ''and logs available in'', Sleep 1,
                     Http (settings_request (example_environment rejecting_server))
                       (Response \<lparr>status_code = 200, response_text = ''[]''\<rparr>),
                     Http (set_admin_credentials_request (example_environment rejecting_server)
                             example_container)
                       (Response \<lparr>status_code = 401, response_text = ''unauthorized''\<rparr>)]\<rparr>)"
    by (simp add: start_def db_container_start_def example_docker_start configure_idem
        connect_def poll_done attempt_def example_http log_event_def
        set_admin_credentials_eq requests_configure request_methods configure_server
        configure_trace example_system_simps rejecting_server_def succeeded_def
        raise_unless_2xx_def is_2xx_def)
  have fail: "start ((example_environment accepting_server)
               \<lparr>run_container := \<lambda>w c. (Some (DockerError ''no such image''), w)\<rparr>)
         example_system =
     Some (Inl (DockerError ''no such image''),
           (configure example_system)
             \<lparr>trace := [DockerStart (Some (DockerError ''no such image''))]\<rparr>)"
    by (simp add: start_def db_container_start_def docker_start_def configure_idem
        configure_server configure_trace example_system_simps)
  have tr: "trace ((configure example_system)
             \<lparr>server := 3,
              trace := [DockerStart None,
                     WaitForLogs ''and logs available in'', Sleep 1,
                     Http (settings_request (example_environment rejecting_server))
                       (Response \<lparr>status_code = 200, response_text = ''[]''\<rparr>),
                     WaitForLogs ''and logs available in'', Sleep 1,
                     Http (settings_request (example_environment rejecting_server))
                       (Response \<lparr>status_code = 200, response_text = ''[]''\<rparr>),
                     Http (set_admin_credentials_request (example_environment rejecting_server)
                             example_container)
                       (Response \<lparr>status_code = 401, response_text = ''unauthorized''\<rparr>)]\<rparr>)
       = [DockerStart None,
                     WaitForLogs ''and logs available in'', Sleep 1,
                     Http (settings_request (example_environment rejecting_server))
                       (Response \<lparr>status_code = 200, response_text = ''[]''\<rparr>),
                     WaitForLogs ''and logs available in'', Sleep 1,
                     Http (settings_request (example_environment rejecting_server))
                       (Response \<lparr>status_code = 200, response_text = ''[]''\<rparr>),
                     Http (set_admin_credentials_request (example_environment rejecting_server)
                             example_container)
                       (Response \<lparr>status_code = 401, response_text = ''unauthorized''\<rparr>)]"
    by simp
  from start_strict_order[of "example_environment rejecting_server" example_system
      "Inl (RuntimeError ''unauthorized'')", THEN conjunct2, THEN conjunct1, rule_format, OF run]
  show ?thesis
    by (simp only: example_run_container option.case tr example_system_simps append_Nil)
       (simp only: run fail simp_thms)
qed

text \<open>
  C2. Each of the four bootstrap methods, when the server answers its request with a
  response, returns normally if the status is in the range 200 to 299 and raises
  \<^verbatim>\<open>RuntimeError\<close> carrying the response text otherwise. It records exactly one exchange,
  so nothing is sent to undo earlier steps, and it leaves the object unchanged.
\<close>

theorem bootstrap_post_2xx:
  assumes "(op, request_for) \<in> set bootstrap_operations"
      and "fst (serve E (server s) (request_for E (self s))) = Response r"
  shows "fst (op E s) = (if 200 \<le> status_code r \<and> status_code r < 300
                         then Inr () else Inl (RuntimeError (response_text r)))
       \<and> trace (snd (op E s)) = trace s @ [Http (request_for E (self s)) (Response r)]
       \<and> self (snd (op E s)) = self s"
  using assms(2)
  by (simp add: bootstrap_post_result[OF assms(1)] http_outcome http_trace http_self
        raise_unless_2xx_Response is_2xx_def)

theorem bootstrap_post_2xx_witness:
  "fst (create_bucket (example_environment rejecting_server) example_system) =
     Inl (RuntimeError ''unauthorized'')
   \<and> trace (snd (create_bucket (example_environment rejecting_server) example_system)) =
       [Http (create_bucket_request (example_environment rejecting_server) example_container)
          (Response \<lparr>status_code = 401, response_text = ''unauthorized''\<rparr>)]
   \<and> fst (set_admin_credentials (example_environment accepting_server) example_system) = Inr ()"
proof -
  have m1: "(create_bucket, create_bucket_request) \<in> set bootstrap_operations"
    and m2: "(set_admin_credentials, set_admin_credentials_request) \<in> set bootstrap_operations"
    by (simp_all add: bootstrap_operations_def)
  have a1: "fst (serve (example_environment rejecting_server) (server example_system)
               (create_bucket_request (example_environment rejecting_server) (self example_system)))
            = Response \<lparr>status_code = 401, response_text = ''unauthorized''\<rparr>"
    by (simp add: example_environment_def rejecting_server_def request_methods)
  have a2: "fst (serve (example_environment accepting_server) (server example_system)
               (set_admin_credentials_request (example_environment accepting_server)
                  (self example_system)))
            = Response \<lparr>status_code = 200, response_text = ''ok''\<rparr>"
    by (simp add: example_environment_def accepting_server_def)
  from bootstrap_post_2xx[OF m1 a1] bootstrap_post_2xx[OF m2 a2]
  show ?thesis by (simp add: example_system_simps)
qed

text \<open>
  C3. \<^verbatim>\<open>_connect\<close> first waits for the log line and then polls: each round sleeps one
  second and sends a GET to the settings endpoint. It returns, normally, exactly when some
  round is the first whose answer has a 2xx status, with the state after that round; a
  connection error and any other status do not pass the test, so they lead to another
  round.
\<close>

theorem connect_polls_until_first_2xx:
  "(connect E s = Some (r, s') \<longleftrightarrow>
      r = Inr () \<and>
      (\<exists>n. first_success E (log_event (WaitForLogs ''and logs available in'') s) n \<and>
           s' = polled E (log_event (WaitForLogs ''and logs available in'') s) (Suc n)))
   \<and> trace (polled E (log_event (WaitForLogs ''and logs available in'') s) m) =
       trace s @ [WaitForLogs ''and logs available in''] @
       poll_events E (log_event (WaitForLogs ''and logs available in'') s) m
   \<and> poll_events E s (Suc m) =
       [Sleep 1,
        Http \<lparr>meth = GET, url = management_url E @ ''/settings/web'', data = [], auth = None\<rparr>
             (fst (serve E (server s) (settings_request E)))]
       @ poll_events E (snd (attempt E s)) m
   \<and> \<not> succeeded ConnectionRefused
   \<and> (succeeded (Response rsp) \<longleftrightarrow> 200 \<le> status_code rsp \<and> status_code rsp < 300)"
  by (simp add: connect_Some_iff polled_trace log_event_def attempt_outcome settings_request_def
        succeeded_def is_2xx_def)

theorem connect_polls_until_first_2xx_witness:
  "connect (example_environment late_server) example_system =
     Some (Inr (), polled (example_environment late_server)
                     (log_event (WaitForLogs ''and logs available in'') example_system) 3)
   \<and> trace (polled (example_environment late_server)
               (log_event (WaitForLogs ''and logs available in'') example_system) 3) =
       [WaitForLogs ''and logs available in'',
        Sleep 1, Http (settings_request (example_environment late_server)) ConnectionRefused,
        Sleep 1, Http (settings_request (example_environment late_server))
                   (Response \<lparr>status_code = 503, response_text = ''starting''\<rparr>),
        Sleep 1, Http (settings_request (example_environment late_server))
                   (Response \<lparr>status_code = 200, response_text = ''ok''\<rparr>)]"
proof -
  let ?E = "example_environment late_server"
  let ?s0 = "log_event (WaitForLogs ''and logs available in'') example_system"
  have "\<exists>n. first_success ?E ?s0 n \<and> polled ?E ?s0 3 = polled ?E ?s0 (Suc n)"
    using late_server_first_success by (intro exI[of _ "Suc (Suc 0)"]) (simp add: numeral_3_eq_3)
  moreover have "poll_events ?E ?s0 3 =
       [Sleep 1, Http (settings_request ?E) ConnectionRefused,
        Sleep 1, Http (settings_request ?E)
                   (Response \<lparr>status_code = 503, response_text = ''starting''\<rparr>),
        Sleep 1, Http (settings_request ?E)
                   (Response \<lparr>status_code = 200, response_text = ''ok''\<rparr>)]"
    by (simp add: numeral_3_eq_3 attempt_outcome attempt_server log_event_def
        example_environment_def example_system_def late_server_def)
  ultimately show ?thesis
    using connect_polls_until_first_2xx[of ?E example_system "Inr ()" "polled ?E ?s0 3" 3]
    by (simp add: example_system_def)
qed

text \<open>
  C4 (as the code has it). The readiness wait has no deadline and no timeout error: when
  no poll ever gets a 2xx status, that is when every poll is answered by another status or
  by a connection error, \<^verbatim>\<open>_connect\<close> does not return.
\<close>

theorem connect_never_times_out:
  assumes "\<forall>k. \<not> succeeded (fst (attempt E
                (polled E (log_event (WaitForLogs ''and logs available in'') s) k)))"
  shows "connect E s = None"
  using assms by (simp add: connect_None_iff)

theorem connect_never_times_out_witness:
  "(\<forall>k. fst (attempt (example_environment closed_server)
                (polled (example_environment closed_server)
                   (log_event (WaitForLogs ''and logs available in'') example_system) k))
          = ConnectionRefused)
   \<and> connect (example_environment closed_server) example_system = None"
proof -
  have never: "fst (attempt (example_environment closed_server) x) = ConnectionRefused" for x
    by (simp add: attempt_outcome example_environment_def closed_server_def)
  then have "\<forall>k. \<not> succeeded (fst (attempt (example_environment closed_server)
                (polled (example_environment closed_server)
                   (log_event (WaitForLogs ''and logs available in'') example_system) k)))"
    by (simp add: succeeded_def)
  from connect_never_times_out[OF this] never show ?thesis by simp
qed

text \<open>
  The claim as stated asks for a timeout error when the endpoint never answers with a 2xx
  status. With a server that answers 503 to every request the wait does not return at all.
\<close>

theorem connect_timeout_counterexample:
  "connect (example_environment unavailable_server) example_system = None"
  by (simp add: connect_None_iff attempt_outcome example_environment_def unavailable_server_def
        succeeded_def is_2xx_def)

text \<open>
  C5 (as the code has it). Each of the five configuration values is the explicit argument
  when one is given and is not the empty string, else the value of its environment
  variable when that is set, else its fallback: \<^verbatim>\<open>Administrator\<close>, \<^verbatim>\<open>password\<close>,
  \<^verbatim>\<open>default\<close>, \<^verbatim>\<open>default\<close>, \<^verbatim>\<open>default\<close>. No method of the class changes the five
  values afterwards.
\<close>

theorem init_precedence_and_immutability:
  "(\<exists>c. init (Inr b) environ a = Inr c \<and>
        configuration c =
          (precedence (arg_username a) (environ ''COUCHBASE_USERNAME'') ''Administrator'',
           precedence (arg_password a) (environ ''COUCHBASE_PASSWORD'') ''password'',
           precedence (arg_bucket a) (environ ''COUCHBASE_BUCKET'') ''default'',
           precedence (arg_scope a) (environ ''COUCHBASE_SCOPE'') ''default'',
           precedence (arg_collection a) (environ ''COUCHBASE_COLLECTION'') ''default''))
   \<and> configuration (self (configure s)) = configuration (self s)
   \<and> (\<forall>(op, request_for) \<in> set bootstrap_operations.
         configuration (self (snd (op E s))) = configuration (self s))
   \<and> configuration (self (snd (client E s))) = configuration (self s)
   \<and> configuration (self (snd (list_buckets E json s))) = configuration (self s)
   \<and> (connect E s = Some (r, s') \<longrightarrow> configuration (self s') = configuration (self s))
   \<and> (start E s = Some (r, s') \<longrightarrow> configuration (self s') = configuration (self s))"
proof (intro conjI)
  from init_returns[of b environ a] obtain c where "init (Inr b) environ a = Inr c" ..
  then show "\<exists>c. init (Inr b) environ a = Inr c \<and>
        configuration c =
          (precedence (arg_username a) (environ ''COUCHBASE_USERNAME'') ''Administrator'',
           precedence (arg_password a) (environ ''COUCHBASE_PASSWORD'') ''password'',
           precedence (arg_bucket a) (environ ''COUCHBASE_BUCKET'') ''default'',
           precedence (arg_scope a) (environ ''COUCHBASE_SCOPE'') ''default'',
           precedence (arg_collection a) (environ ''COUCHBASE_COLLECTION'') ''default'')"
    using init_configuration by blast
  show "configuration (self (configure s)) = configuration (self s)"
    by (rule configure_configuration)
  show "\<forall>(op, request_for) \<in> set bootstrap_operations.
         configuration (self (snd (op E s))) = configuration (self s)"
  proof (intro ballI, clarify)
    fix op request_for
    assume "(op, request_for) \<in> set (bootstrap_operations :: (('a environment \<Rightarrow> _) \<times> _) list)"
    then have "self (snd (op E s)) = self s" by (rule bootstrap_post_self)
    then show "configuration (self (snd (op E s))) = configuration (self s)" by simp
  qed
  show "configuration (self (snd (client E s))) = configuration (self s)"
    by (simp add: client_self)
  show "configuration (self (snd (list_buckets E json s))) = configuration (self s)"
    by (simp add: list_buckets_self)
  show "connect E s = Some (r, s') \<longrightarrow> configuration (self s') = configuration (self s)"
    by (simp add: connect_self)
  show "start E s = Some (r, s') \<longrightarrow> configuration (self s') = configuration (self s)"
    by (auto simp: configure_configuration dest: start_self)
qed

theorem init_precedence_and_immutability_witness:
  "(\<exists>c. init (Inr example_base) [''COUCHBASE_BUCKET'' \<mapsto> ''travel''] example_args = Inr c \<and>
        configuration c = (''administrator'', ''password'', ''travel'', ''default'', ''default''))
   \<and> start (example_environment rejecting_server) example_system =
     Some (Inl (RuntimeError ''unauthorized''),
           (configure example_system)
             \<lparr>server := 3,
              trace := [DockerStart None,
                     WaitForLogs ''and logs available in'', Sleep 1,
                     Http (settings_request (example_environment rejecting_server))
                       (Response \<lparr>status_code = 200, response_text = ''[]''\<rparr>),
                     WaitForLogs ''and logs available in'', Sleep 1,
                     Http (settings_request (example_environment rejecting_server))
                       (Response \<lparr>status_code = 200, response_text = ''[]''\<rparr>),
                     Http (set_admin_credentials_request (example_environment rejecting_server)
                             example_container)
                       (Response \<lparr>status_code = 401, response_text = ''unauthorized''\<rparr>)]\<rparr>)
   \<and> configuration (self ((configure example_system)
             \<lparr>server := 3,
              trace := [DockerStart None,
                     WaitForLogs ''and logs available in'', Sleep 1,
                     Http (settings_request (example_environment rejecting_server))
                       (Response \<lparr>status_code = 200, response_text = ''[]''\<rparr>),
                     WaitForLogs ''and logs available in'', Sleep 1,
                     Http (settings_request (example_environment rejecting_server))
                       (Response \<lparr>status_code = 200, response_text = ''[]''\<rparr>),
                     Http (set_admin_credentials_request (example_environment rejecting_server)
                             example_container)
                       (Response \<lparr>status_code = 401, response_text = ''unauthorized''\<rparr>)]\<rparr>))
       = (''administrator'', ''password'', ''default'', ''default'', ''default'')"
proof -
  have run: "start (example_environment rejecting_server) example_system =
     Some (Inl (RuntimeError ''unauthorized''),
           (configure example_system)
             \<lparr>server := 3,
              trace := [DockerStart None,
                     WaitForLogs ''and logs available in'', Sleep 1,
                     Http (settings_request (example_environment rejecting_server))
                       (Response \<lparr>status_code = 200, response_text = ''[]''\<rparr>),
                     WaitForLogs ''and logs available in'', Sleep 1,
                     Http (settings_request (example_environment rejecting_server))
                       (Response \<lparr>status_code = 200, response_text = ''[]''\<rparr>),
                     Http (set_admin_credentials_request (example_environment rejecting_server)
                             example_container)
                       (Response \<lparr>status_code = 401, response_text = ''unauthorized''\<rparr>)]\<rparr>)"
    by (simp add: start_def db_container_start_def example_docker_start configure_idem
        connect_def poll_done attempt_def example_http log_event_def
        set_admin_credentials_eq requests_configure request_methods configure_server
        configure_trace example_system_simps rejecting_server_def succeeded_def
        raise_unless_2xx_def is_2xx_def)
  have conf: "configuration (self example_system) =
      (''administrator'', ''password'', ''default'', ''default'', ''default'')"
    by (simp add: configuration_def example_system_def example_container_def)
  from init_precedence_and_immutability[where b = example_base
      and environ = "[''COUCHBASE_BUCKET'' \<mapsto> ''travel'']" and a = example_args
      and s = example_system and E = "example_environment rejecting_server"
      and json = "\<lambda>rsp. Inr (response_text rsp)"
      and r = "Inl (RuntimeError ''unauthorized'')"
      and s' = "(configure example_system)
             \<lparr>server := 3,
              trace := [DockerStart None,
                     WaitForLogs ''and logs available in'', Sleep 1,
                     Http (settings_request (example_environment rejecting_server))
                       (Response \<lparr>status_code = 200, response_text = ''[]''\<rparr>),
                     WaitForLogs ''and logs available in'', Sleep 1,
                     Http (settings_request (example_environment rejecting_server))
                       (Response \<lparr>status_code = 200, response_text = ''[]''\<rparr>),
                     Http (set_admin_credentials_request (example_environment rejecting_server)
                             example_container)
                       (Response \<lparr>status_code = 401, response_text = ''unauthorized''\<rparr>)]\<rparr>"]
    run conf
  show ?thesis by (simp add: precedence_def example_args_def)
qed

text \<open>
  The claim as stated takes the explicit argument whenever it is given. An explicit empty
  string is given and is not taken: with no environment variable set the user name is the
  fallback.
\<close>

theorem init_precedence_counterexample:
  "arg_username (example_args\<lparr>arg_username := Some ''''\<rparr>) = Some ''''
   \<and> map_sum id username (init (Inr example_base) Map.empty (example_args\<lparr>arg_username := Some ''''\<rparr>))
       = Inr ''Administrator''"
  by (simp add: init_def Let_def expose_and_bind_fields py_or_def environ_get_def example_args_def)

text \<open>
  C6. \<^verbatim>\<open>get_connection_url\<close> is the scheme \<^verbatim>\<open>couchbases://\<close> followed by the host
  address of the container, and it takes nothing else into account. The handle that
  \<^verbatim>\<open>client\<close> returns is built for this URL although its TLS verification is switched
  off.
\<close>

theorem get_connection_url_scheme_and_host:
  "get_connection_url E = ''couchbases://'' @ get_container_host_ip E
   \<and> (fst (client E s) = Inr cl \<longrightarrow>
         connstr cl = ''couchbases://'' @ get_container_host_ip E \<and>
         tls_verify (options cl) = TLS_NONE)"
  by (auto simp: get_connection_url_def client_def Let_def split: if_splits option.splits)

theorem get_connection_url_scheme_and_host_witness:
  "get_connection_url (example_environment accepting_server) = ''couchbases://localhost''
   \<and> fst (client (example_environment accepting_server) example_system) =
       Inr \<lparr>connstr = ''couchbases://localhost'',
            options = \<lparr>authenticator = (''administrator'', ''password''),
                       kv_timeout = 10, enable_tcp_keep_alive = True, tls_verify = TLS_NONE\<rparr>\<rparr>
   \<and> connstr \<lparr>connstr = ''couchbases://localhost'',
            options = \<lparr>authenticator = (''administrator'', ''password''),
                       kv_timeout = 10, enable_tcp_keep_alive = True, tls_verify = TLS_NONE\<rparr>\<rparr>
       = ''couchbases://localhost''"
proof -
  have run: "fst (client (example_environment accepting_server) example_system) =
       Inr \<lparr>connstr = ''couchbases://localhost'',
            options = \<lparr>authenticator = (''administrator'', ''password''),
                       kv_timeout = 10, enable_tcp_keep_alive = True, tls_verify = TLS_NONE\<rparr>\<rparr>"
    by (simp add: client_def Let_def log_event_def get_connection_url_def
          example_environment_def example_system_def example_container_def)
  from get_connection_url_scheme_and_host[of "example_environment accepting_server"
      example_system, THEN conjunct2, rule_format, OF run]
    get_connection_url_scheme_and_host[of "example_environment accepting_server"
      example_system, THEN conjunct1] run
  show ?thesis by (simp add: example_environment_def)
qed

text \<open>
  C7. The four bootstrap requests are POSTs with these payloads: the credentials request
  has no authentication and the body username, password, port = SAME; the bucket request
  has name, bucketType = couchbase, ramQuotaMB = 256; the scope request has name; the
  collection request has name, maxTTL = 3600, history = false; the last three carry basic
  authentication with the user name and password of the object, the ones the first request
  sets. Each method sends exactly its request, and a successful \<^verbatim>\<open>start\<close> has sent
  exactly these four POSTs, in this order.
\<close>

theorem bootstrap_payloads:
  "set_admin_credentials_request E c =
     \<lparr>meth = POST,
      url = ''http://'' @ get_container_host_ip E @ '':'' @ str_int (get_exposed_port E 8091)
              @ ''/settings/web'',
      data = [(''username'', StrV (username c)), (''password'', StrV (password c)),
              (''port'', StrV ''SAME'')],
      auth = None\<rparr>
   \<and> create_bucket_request E c =
     \<lparr>meth = POST,
      url = ''http://'' @ get_container_host_ip E @ '':'' @ str_int (get_exposed_port E 8091)
              @ ''/pools/default/buckets'',
      data = [(''name'', StrV (bucket c)), (''bucketType'', StrV ''couchbase''),
              (''ramQuotaMB'', IntV 256)],
      auth = Some (username c, password c)\<rparr>
   \<and> create_scope_request E c =
     \<lparr>meth = POST,
      url = ''http://'' @ get_container_host_ip E @ '':'' @ str_int (get_exposed_port E 8091)
              @ ''/pools/default/buckets/'' @ bucket c @ ''/scopes'',
      data = [(''name'', StrV (scope c))],
      auth = Some (username c, password c)\<rparr>
   \<and> create_collection_request E c =
     \<lparr>meth = POST,
      url = ''http://'' @ get_container_host_ip E @ '':'' @ str_int (get_exposed_port E 8091)
              @ ''/pools/default/buckets/'' @ bucket c @ ''/scopes/'' @ scope c @ ''/collections'',
      data = [(''name'', StrV (collection c)), (''maxTTL'', IntV 3600),
              (''history'', StrV ''false'')],
      auth = Some (username c, password c)\<rparr>
   \<and> (\<forall>(op, request_for) \<in> set bootstrap_operations.
         requests_of (trace (snd (op E s))) = requests_of (trace s) @ [request_for E (self s)])
   \<and> (start E s = Some (Inr (), s') \<longrightarrow>
         posts_of (trace s') = posts_of (trace s) @
           [set_admin_credentials_request E (self s), create_bucket_request E (self s),
            create_scope_request E (self s), create_collection_request E (self s)])"
proof (intro conjI)
  show "\<forall>(op, request_for) \<in> set bootstrap_operations.
         requests_of (trace (snd (op E s))) = requests_of (trace s) @ [request_for E (self s)]"
  proof (intro ballI, clarify)
    fix op request_for
    assume "(op, request_for) \<in> set (bootstrap_operations :: (('a environment \<Rightarrow> _) \<times> _) list)"
    then have "op E s = (raise_unless_2xx (fst (serve E (server s) (request_for E (self s)))),
                   snd (http E (request_for E (self s)) s))"
      by (rule bootstrap_post_result)
    then show "requests_of (trace (snd (op E s))) = requests_of (trace s) @ [request_for E (self s)]"
      by (simp add: http_trace requests_of_append)
  qed
  show "start E s = Some (Inr (), s') \<longrightarrow>
         posts_of (trace s') = posts_of (trace s) @
           [set_admin_credentials_request E (self s), create_bucket_request E (self s),
            create_scope_request E (self s), create_collection_request E (self s)]"
    using start_success_posts[of E s s'] by (simp add: bootstrap_requests_def)
qed (simp_all add: set_admin_credentials_request_def create_bucket_request_def
       create_scope_request_def create_collection_request_def management_url_def lower_str_False)

theorem bootstrap_payloads_witness:
  "start (example_environment accepting_server) example_system =
     Some (Inr (),
           (configure example_system)
             \<lparr>server := 6,
              trace := [DockerStart None,
                WaitForLogs ''and logs available in'', Sleep 1,
                Http (settings_request (example_environment accepting_server))
                  (Response \<lparr>status_code = 200, response_text = ''ok''\<rparr>),
                WaitForLogs ''and logs available in'', Sleep 1,
                Http (settings_request (example_environment accepting_server))
                  (Response \<lparr>status_code = 200, response_text = ''ok''\<rparr>),
                Http (set_admin_credentials_request (example_environment accepting_server)
                        example_container)
                  (Response \<lparr>status_code = 200, response_text = ''ok''\<rparr>),
                Http (create_bucket_request (example_environment accepting_server)
                        example_container)
                  (Response \<lparr>status_code = 200, response_text = ''ok''\<rparr>),
                Http (create_scope_request (example_environment accepting_server)
                        example_container)
                  (Response \<lparr>status_code = 200, response_text = ''ok''\<rparr>),
                Http (create_collection_request (example_environment accepting_server)
                        example_container)
                  (Response \<lparr>status_code = 200, response_text = ''ok''\<rparr>)]\<rparr>)
   \<and> posts_of [DockerStart None,
                WaitForLogs ''and logs available in'', Sleep 1,
                Http (settings_request (example_environment accepting_server))
                  (Response \<lparr>status_code = 200, response_text = ''ok''\<rparr>),
                WaitForLogs ''and logs available in'', Sleep 1,
                Http (settings_request (example_environment accepting_server))
                  (Response \<lparr>status_code = 200, response_text = ''ok''\<rparr>),
                Http (set_admin_credentials_request (example_environment accepting_server)
                        example_container)
                  (Response \<lparr>status_code = 200, response_text = ''ok''\<rparr>),
                Http (create_bucket_request (example_environment accepting_server)
                        example_container)
                  (Response \<lparr>status_code = 200, response_text = ''ok''\<rparr>),
                Http (create_scope_request (example_environment accepting_server)
                        example_container)
                  (Response \<lparr>status_code = 200, response_text = ''ok''\<rparr>),
                Http (create_collection_request (example_environment accepting_server)
                        example_container)
                  (Response \<lparr>status_code = 200, response_text = ''ok''\<rparr>)] =
     [\<lparr>meth = POST, url = ''http://localhost:8091/settings/web'',
       data = [(''username'', StrV ''administrator''), (''password'', StrV ''password''),
               (''port'', StrV ''SAME'')],
       auth = None\<rparr>,
      \<lparr>meth = POST, url = ''http://localhost:8091/pools/default/buckets'',
       data = [(''name'', StrV ''default''), (''bucketType'', StrV ''couchbase''),
               (''ramQuotaMB'', IntV 256)],
       auth = Some (''administrator'', ''password'')\<rparr>,
      \<lparr>meth = POST, url = ''http://localhost:8091/pools/default/buckets/default/scopes'',
       data = [(''name'', StrV ''default'')],
       auth = Some (''administrator'', ''password'')\<rparr>,
      \<lparr>meth = POST,
       url = ''http://localhost:8091/pools/default/buckets/default/scopes/default/collections'',
       data = [(''name'', StrV ''default''), (''maxTTL'', IntV 3600), (''history'', StrV ''false'')],
       auth = Some (''administrator'', ''password'')\<rparr>]"
proof -
  have run: "start (example_environment accepting_server) example_system =
     Some (Inr (),
           (configure example_system)
             \<lparr>server := 6,
              trace := [DockerStart None,
                WaitForLogs ''and logs available in'', Sleep 1,
                Http (settings_request (example_environment accepting_server))
                  (Response \<lparr>status_code = 200, response_text = ''ok''\<rparr>),
                WaitForLogs ''and logs available in'', Sleep 1,
                Http (settings_request (example_environment accepting_server))
                  (Response \<lparr>status_code = 200, response_text = ''ok''\<rparr>),
                Http (set_admin_credentials_request (example_environment accepting_server)
                        example_container)
                  (Response \<lparr>status_code = 200, response_text = ''ok''\<rparr>),
                Http (create_bucket_request (example_environment accepting_server)
                        example_container)
                  (Response \<lparr>status_code = 200, response_text = ''ok''\<rparr>),
                Http (create_scope_request (example_environment accepting_server)
                        example_container)
                  (Response \<lparr>status_code = 200, response_text = ''ok''\<rparr>),
                Http (create_collection_request (example_environment accepting_server)
                        example_container)
                  (Response \<lparr>status_code = 200, response_text = ''ok''\<rparr>)]\<rparr>)"
    by (simp add: start_def db_container_start_def example_docker_start configure_idem
        connect_def poll_done attempt_def example_http log_event_def
        set_admin_credentials_eq create_bucket_eq create_scope_eq create_collection_eq
        requests_configure configure_server configure_trace example_system_simps
        accepting_server_def succeeded_def raise_unless_2xx_def is_2xx_def)
  have urls: "get_container_host_ip (example_environment accepting_server) = ''localhost''"
    "str_int (get_exposed_port (example_environment accepting_server) 8091) = ''8091''"
    by (simp_all add: example_environment_def str_int_8091)
  have fields: "username example_container = ''administrator''"
    "password example_container = ''password''" "bucket example_container = ''default''"
    "scope example_container = ''default''" "collection example_container = ''default''"
    by (simp_all add: example_container_def)
  note payloads = bootstrap_payloads[where E = "example_environment accepting_server"
      and c = example_container and s = example_system]
  from payloads[THEN conjunct2, THEN conjunct2, THEN conjunct2, THEN conjunct2, THEN conjunct2,
      rule_format, OF run]
  have "posts_of [DockerStart None,
                WaitForLogs ''and logs available in'', Sleep 1,
                Http (settings_request (example_environment accepting_server))
                  (Response \<lparr>status_code = 200, response_text = ''ok''\<rparr>),
                WaitForLogs ''and logs available in'', Sleep 1,
                Http (settings_request (example_environment accepting_server))
                  (Response \<lparr>status_code = 200, response_text = ''ok''\<rparr>),
                Http (set_admin_credentials_request (example_environment accepting_server)
                        example_container)
                  (Response \<lparr>status_code = 200, response_text = ''ok''\<rparr>),
                Http (create_bucket_request (example_environment accepting_server)
                        example_container)
                  (Response \<lparr>status_code = 200, response_text = ''ok''\<rparr>),
                Http (create_scope_request (example_environment accepting_server)
                        example_container)
                  (Response \<lparr>status_code = 200, response_text = ''ok''\<rparr>),
                Http (create_collection_request (example_environment accepting_server)
                        example_container)
                  (Response \<lparr>status_code = 200, response_text = ''ok''\<rparr>)] =
     [set_admin_credentials_request (example_environment accepting_server) example_container,
      create_bucket_request (example_environment accepting_server) example_container,
      create_scope_request (example_environment accepting_server) example_container,
      create_collection_request (example_environment accepting_server) example_container]"
    by (simp add: example_system_simps posts_of_def)
  also have "\<dots> =
     [\<lparr>meth = POST, url = ''http://localhost:8091/settings/web'',
       data = [(''username'', StrV ''administrator''), (''password'', StrV ''password''),
               (''port'', StrV ''SAME'')],
       auth = None\<rparr>,
      \<lparr>meth = POST, url = ''http://localhost:8091/pools/default/buckets'',
       data = [(''name'', StrV ''default''), (''bucketType'', StrV ''couchbase''),
               (''ramQuotaMB'', IntV 256)],
       auth = Some (''administrator'', ''password'')\<rparr>,
      \<lparr>meth = POST, url = ''http://localhost:8091/pools/default/buckets/default/scopes'',
       data = [(''name'', StrV ''default'')],
       auth = Some (''administrator'', ''password'')\<rparr>,
      \<lparr>meth = POST,
       url = ''http://localhost:8091/pools/default/buckets/default/scopes/default/collections'',
       data = [(''name'', StrV ''default''), (''maxTTL'', IntV 3600), (''history'', StrV ''false'')],
       auth = Some (''administrator'', ''password'')\<rparr>]"
    by (simp only: payloads[THEN conjunct1] payloads[THEN conjunct2, THEN conjunct1]
          payloads[THEN conjunct2, THEN conjunct2, THEN conjunct1]
          payloads[THEN conjunct2, THEN conjunct2, THEN conjunct2, THEN conjunct1]
          urls fields) simp
  finally show ?thesis using run by simp
qed

text \<open>
  C8. \<^verbatim>\<open>list_buckets\<close> sends one GET with basic authentication to the buckets endpoint.
  When the server answers with a response, the result is the parsed body if the status is
  in the range 200 to 299 and \<^verbatim>\<open>RuntimeError\<close> with the response text otherwise. The
  object is unchanged, so a second call sends the same request.
\<close>

theorem list_buckets_result:
  "list_buckets_request E (self s) =
     \<lparr>meth = GET,
      url = ''http://'' @ get_container_host_ip E @ '':'' @ str_int (get_exposed_port E 8091)
              @ ''/pools/default/buckets'',
      data = [],
      auth = Some (username (self s), password (self s))\<rparr>
   \<and> trace (snd (list_buckets E json s)) =
       trace s @ [Http (list_buckets_request E (self s))
                    (fst (serve E (server s) (list_buckets_request E (self s))))]
   \<and> (fst (serve E (server s) (list_buckets_request E (self s))) = Response rsp \<longrightarrow>
         fst (list_buckets E json s) =
           (if 200 \<le> status_code rsp \<and> status_code rsp < 300 then json rsp
            else Inl (RuntimeError (response_text rsp))))
   \<and> self (snd (list_buckets E json s)) = self s
   \<and> list_buckets_request E (self (snd (list_buckets E json s))) = list_buckets_request E (self s)"
  by (simp add: list_buckets_eq http_trace http_outcome http_self is_2xx_def)
     (simp add: list_buckets_request_def management_url_def)

theorem list_buckets_result_witness:
  "fst (list_buckets (example_environment rejecting_server) (\<lambda>rsp. Inr (response_text rsp))
          example_system) = Inr ''[]''
   \<and> fst (list_buckets (example_environment unavailable_server) (\<lambda>rsp. Inr (response_text rsp))
          example_system) = Inl (RuntimeError ''unavailable'')"
proof -
  have a1: "fst (serve (example_environment rejecting_server) (server example_system)
               (list_buckets_request (example_environment rejecting_server) (self example_system)))
            = Response \<lparr>status_code = 200, response_text = ''[]''\<rparr>"
    by (simp add: example_environment_def rejecting_server_def request_methods)
  have a2: "fst (serve (example_environment unavailable_server) (server example_system)
               (list_buckets_request (example_environment unavailable_server) (self example_system)))
            = Response \<lparr>status_code = 503, response_text = ''unavailable''\<rparr>"
    by (simp add: example_environment_def unavailable_server_def)
  from list_buckets_result[where E = "example_environment rejecting_server"
        and s = example_system and json = "\<lambda>rsp. Inr (response_text rsp)"
        and rsp = "\<lparr>status_code = 200, response_text = ''[]''\<rparr>"]
      list_buckets_result[where E = "example_environment unavailable_server"
        and s = example_system and json = "\<lambda>rsp. Inr (response_text rsp)"
        and rsp = "\<lparr>status_code = 503, response_text = ''unavailable''\<rparr>"]
      a1 a2
  show ?thesis by simp
qed

text \<open>
  C9 (as the code has it). Every call of \<^verbatim>\<open>client\<close> constructs a cluster handle for the
  connection URL with password authentication by the user name and password of the object,
  a key-value timeout of 10 seconds, TCP keep-alive and no TLS verification. When the
  construction raises, the exception leaves \<^verbatim>\<open>client\<close> and no readiness wait is made.
  When it returns, \<^verbatim>\<open>client\<close> waits up to 15 seconds for the cluster to be ready: the
  handle is returned when the cluster reports ready and the timeout error is raised
  otherwise. The object keeps no handle, and a second call constructs again.
\<close>

theorem client_fresh_handle:
  "\<exists>cl. cl = \<lparr>connstr = ''couchbases://'' @ get_container_host_ip E,
              options = \<lparr>authenticator = (username (self s), password (self s)),
                         kv_timeout = 10, enable_tcp_keep_alive = True,
                         tls_verify = TLS_NONE\<rparr>\<rparr>
     \<and> (\<forall>e. cluster_connect E (server s) cl = Some e \<longrightarrow>
            fst (client E s) = Inl e \<and>
            trace (snd (client E s)) = trace s @ [NewCluster cl (Some e)])
     \<and> (cluster_connect E (server s) cl = None \<longrightarrow>
            fst (client E s) =
              (if cluster_ready E (server s) cl 15 then Inr cl else Inl ClusterTimeout) \<and>
            trace (snd (client E s)) =
              trace s @ [NewCluster cl None,
                         WaitUntilReady cl 15 (cluster_ready E (server s) cl 15)])
     \<and> self (snd (client E s)) = self s
     \<and> trace (snd (client E (snd (client E s)))) =
         trace (snd (client E s)) @ drop (length (trace s)) (trace (snd (client E s)))"
proof (intro exI conjI)
  let ?cl = "\<lparr>connstr = ''couchbases://'' @ get_container_host_ip E,
              options = \<lparr>authenticator = (username (self s), password (self s)),
                         kv_timeout = 10, enable_tcp_keep_alive = True,
                         tls_verify = TLS_NONE\<rparr>\<rparr>"
  show "?cl = ?cl" ..
  show "\<forall>e. cluster_connect E (server s) ?cl = Some e \<longrightarrow>
            fst (client E s) = Inl e \<and>
            trace (snd (client E s)) = trace s @ [NewCluster ?cl (Some e)]"
    by (simp add: client_def Let_def log_event_def get_connection_url_def)
  show "cluster_connect E (server s) ?cl = None \<longrightarrow>
            fst (client E s) =
              (if cluster_ready E (server s) ?cl 15 then Inr ?cl else Inl ClusterTimeout) \<and>
            trace (snd (client E s)) =
              trace s @ [NewCluster ?cl None,
                         WaitUntilReady ?cl 15 (cluster_ready E (server s) ?cl 15)]"
    by (simp add: client_def Let_def log_event_def get_connection_url_def)
  show "self (snd (client E s)) = self s" by (rule client_self)
  have "trace (snd (client E s')) = trace s' @ drop (length (trace s)) (trace (snd (client E s)))"
    if "self s' = self s" "server s' = server s" for s'
    using that by (simp add: client_def Let_def log_event_def split: option.splits)
  from this[OF client_self client_server]
  show "trace (snd (client E (snd (client E s)))) =
         trace (snd (client E s)) @ drop (length (trace s)) (trace (snd (client E s)))" .
qed

theorem client_fresh_handle_witness:
  "fst (client (example_environment accepting_server) example_system) =
     Inr \<lparr>connstr = ''couchbases://localhost'',
          options = \<lparr>authenticator = (''administrator'', ''password''),
                     kv_timeout = 10, enable_tcp_keep_alive = True, tls_verify = TLS_NONE\<rparr>\<rparr>
   \<and> trace (snd (client (example_environment accepting_server) example_system)) =
     [NewCluster \<lparr>connstr = ''couchbases://localhost'',
          options = \<lparr>authenticator = (''administrator'', ''password''),
                     kv_timeout = 10, enable_tcp_keep_alive = True, tls_verify = TLS_NONE\<rparr>\<rparr> None,
      WaitUntilReady \<lparr>connstr = ''couchbases://localhost'',
          options = \<lparr>authenticator = (''administrator'', ''password''),
                     kv_timeout = 10, enable_tcp_keep_alive = True, tls_verify = TLS_NONE\<rparr>\<rparr> 15 True]
   \<and> fst (client ((example_environment accepting_server)\<lparr>cluster_ready := \<lambda>w cl t. False\<rparr>)
          example_system) = Inl ClusterTimeout"
  using client_fresh_handle[of "example_environment accepting_server" example_system]
    client_fresh_handle[of "(example_environment accepting_server)\<lparr>cluster_ready := \<lambda>w cl t. False\<rparr>"
      example_system]
  by (simp add: example_environment_def example_system_def example_container_def)

text \<open>
  The claim as stated has every call wait up to 15 seconds for readiness. A call whose
  construction of the handle raises makes no readiness wait and ends with the exception of
  the constructor.
\<close>

theorem client_constructor_counterexample:
  "fst (client ((example_environment accepting_server)
                 \<lparr>cluster_connect := \<lambda>w cl. Some ClusterConnectError\<rparr>) example_system) =
     Inl ClusterConnectError
   \<and> trace (snd (client ((example_environment accepting_server)
                 \<lparr>cluster_connect := \<lambda>w cl. Some ClusterConnectError\<rparr>) example_system)) =
     [NewCluster \<lparr>connstr = ''couchbases://localhost'',
          options = \<lparr>authenticator = (''administrator'', ''password''),
                     kv_timeout = 10, enable_tcp_keep_alive = True, tls_verify = TLS_NONE\<rparr>\<rparr>
        (Some ClusterConnectError)]"
  by (simp add: client_def Let_def log_event_def get_connection_url_def
        example_environment_def example_system_def example_container_def)

text \<open>
  C10. When the argument \<^verbatim>\<open>ports\<close> is \<^verbatim>\<open>None\<close> or the empty list, the constructor
  exposes the eighteen default ports and binds each to the host port of the same number;
  when it is a non-empty list, it exposes and binds exactly the ports of the list.
\<close>

theorem init_ports:
  assumes "init (Inr b) environ a = Inr c"
  shows "(arg_ports a = None \<or> arg_ports a = Some [] \<longrightarrow>
            exposed_ports c = exposed_ports b @
              [8091, 8092, 8093, 8094, 8095, 8096, 8097, 9123, 11207, 11210, 11280,
               18091, 18092, 18093, 18094, 18095, 18096, 18097] \<and>
            bind_ports c = bind_ports b @
              [(8091, 8091), (8092, 8092), (8093, 8093), (8094, 8094), (8095, 8095),
               (8096, 8096), (8097, 8097), (9123, 9123), (11207, 11207), (11210, 11210),
               (11280, 11280), (18091, 18091), (18092, 18092), (18093, 18093),
               (18094, 18094), (18095, 18095), (18096, 18096), (18097, 18097)])
      \<and> (\<forall>ps. arg_ports a = Some ps \<and> ps \<noteq> [] \<longrightarrow>
            exposed_ports c = exposed_ports b @ ps \<and>
            bind_ports c = bind_ports b @ map (\<lambda>p. (p, p)) ps)"
proof (intro conjI impI allI)
  assume "arg_ports a = None \<or> arg_ports a = Some []"
  then have ps: "(case arg_ports a of None \<Rightarrow> default_ports
            | Some ps \<Rightarrow> if length ps = 0 then default_ports else ps) = default_ports"
    by auto
  show "exposed_ports c = exposed_ports b @
              [8091, 8092, 8093, 8094, 8095, 8096, 8097, 9123, 11207, 11210, 11280,
               18091, 18092, 18093, 18094, 18095, 18096, 18097]"
    unfolding init_exposed_ports[OF assms] ps by (simp add: default_ports_def)
  show "bind_ports c = bind_ports b @
              [(8091, 8091), (8092, 8092), (8093, 8093), (8094, 8094), (8095, 8095),
               (8096, 8096), (8097, 8097), (9123, 9123), (11207, 11207), (11210, 11210),
               (11280, 11280), (18091, 18091), (18092, 18092), (18093, 18093),
               (18094, 18094), (18095, 18095), (18096, 18096), (18097, 18097)]"
    unfolding init_bind_ports[OF assms] ps by (simp add: default_ports_def)
next
  fix ps assume "arg_ports a = Some ps \<and> ps \<noteq> []"
  then have ps: "(case arg_ports a of None \<Rightarrow> default_ports
            | Some ps \<Rightarrow> if length ps = 0 then default_ports else ps) = ps"
    by auto
  show "exposed_ports c = exposed_ports b @ ps"
    unfolding init_exposed_ports[OF assms] ps by simp
  show "bind_ports c = bind_ports b @ map (\<lambda>p. (p, p)) ps"
    unfolding init_bind_ports[OF assms] ps by simp
qed

theorem init_ports_witness:
  "(\<exists>c. init (Inr example_base) Map.empty example_args = Inr c
        \<and> exposed_ports c =
            [8091, 8092, 8093, 8094, 8095, 8096, 8097, 9123, 11207, 11210, 11280,
             18091, 18092, 18093, 18094, 18095, 18096, 18097]
        \<and> bind_ports c =
            [(8091, 8091), (8092, 8092), (8093, 8093), (8094, 8094), (8095, 8095),
             (8096, 8096), (8097, 8097), (9123, 9123), (11207, 11207), (11210, 11210),
             (11280, 11280), (18091, 18091), (18092, 18092), (18093, 18093),
             (18094, 18094), (18095, 18095), (18096, 18096), (18097, 18097)])
   \<and> (\<exists>c. init (Inr example_base) Map.empty (example_args\<lparr>arg_ports := Some [8091, 11210]\<rparr>) = Inr c
        \<and> exposed_ports c = [8091, 11210]
        \<and> bind_ports c = [(8091, 8091), (11210, 11210)])"
proof -
  obtain c1 where c1: "init (Inr example_base) Map.empty example_args = Inr c1"
    by (simp add: init_def Let_def)
  obtain c2 where c2:
    "init (Inr example_base) Map.empty (example_args\<lparr>arg_ports := Some [8091, 11210]\<rparr>) = Inr c2"
    by (simp add: init_def Let_def)
  from init_ports[OF c1] have
    "exposed_ports c1 =
            [8091, 8092, 8093, 8094, 8095, 8096, 8097, 9123, 11207, 11210, 11280,
             18091, 18092, 18093, 18094, 18095, 18096, 18097]
     \<and> bind_ports c1 =
            [(8091, 8091), (8092, 8092), (8093, 8093), (8094, 8094), (8095, 8095),
             (8096, 8096), (8097, 8097), (9123, 9123), (11207, 11207), (11210, 11210),
             (11280, 11280), (18091, 18091), (18092, 18092), (18093, 18093),
             (18094, 18094), (18095, 18095), (18096, 18096), (18097, 18097)]"
    by (simp add: example_args_def example_base_def)
  moreover from init_ports[OF c2] have
    "exposed_ports c2 = [8091, 11210] \<and> bind_ports c2 = [(8091, 8091), (11210, 11210)]"
    by (simp add: example_args_def example_base_def)
  ultimately show ?thesis using c1 c2 by blast
qed

end
